theory Spec2Isabelle
  imports Complex_Main
begin

section \<open>Values and text\<close>

text \<open>
  The server (\<^verbatim>\<open>src/server.js\<close>) keeps all of its state in files below the vault
  directory. Two kinds of file content occur: Markdown text (approval requests, the
  dashboard document), which the code handles as strings, and JSON documents (the
  day-bucket logs and the stats side-file), which the code only ever passes through
  \<^verbatim>\<open>JSON.parse\<close> and \<^verbatim>\<open>JSON.stringify\<close>.

  A JSON value. Numbers are rationals: the code never computes with them, it only
  tests them for falsiness and passes them on (the default \<^verbatim>\<open>aiUptime\<close> is 99.8).
  An absent property (\<^verbatim>\<open>undefined\<close>) is \<open>None\<close> of \<open>json option\<close>.
\<close>

datatype json =
    JNull
  | JBool bool
  | JNum rat
  | JStr string
  | JArr "json list"
  | JObj "(string \<times> json) list"

text \<open>
  The text of a JSON file, as \<^verbatim>\<open>JSON.parse\<close> sees it: either a document, given by the
  value it parses to, or text that \<^verbatim>\<open>JSON.parse\<close> rejects with a SyntaxError.
  \<^verbatim>\<open>JSON.stringify(x, null, 2)\<close> of a value writes the document \<open>Json x\<close>.
\<close>

datatype filetext = Json json | Garbled string

datatype error = ENOENT | EACCES | SyntaxError | TypeError | UnknownAction

text \<open>JavaScript truthiness of a possibly absent JSON value (\<^verbatim>\<open>!x\<close>, \<^verbatim>\<open>x || d\<close>).\<close>

fun truthy :: "json option \<Rightarrow> bool" where
  "truthy None = False"
| "truthy (Some JNull) = False"
| "truthy (Some (JBool b)) = b"
| "truthy (Some (JNum n)) = (n \<noteq> 0)"
| "truthy (Some (JStr s)) = (s \<noteq> [])"
| "truthy (Some (JArr xs)) = True"
| "truthy (Some (JObj kv)) = True"

text \<open>\<^verbatim>\<open>x || d\<close> where \<open>d\<close> is a value.\<close>

definition or_else :: "json option \<Rightarrow> json \<Rightarrow> json" where
  "or_else x d = (case x of None \<Rightarrow> d | Some j \<Rightarrow> if truthy (Some j) then j else d)"

text \<open>
  Property read \<^verbatim>\<open>x.k\<close> on a parsed JSON value other than \<^verbatim>\<open>null\<close>, for a name \<open>k\<close>
  that no prototype defines (all names the code reads are of that kind): the own
  property of an object, \<^verbatim>\<open>undefined\<close> on anything else. On \<^verbatim>\<open>null\<close> the read throws;
  the callers test for that first.
\<close>

fun is_array :: "json \<Rightarrow> bool" where
  "is_array (JArr xs) = True"
| "is_array _ = False"

fun field :: "json \<Rightarrow> string \<Rightarrow> json option" where
  "field (JObj kv) k = map_of kv k"
| "field _ k = None"

subsection \<open>String primitives\<close>

text \<open>\<^verbatim>\<open>s.startsWith(t)\<close>, \<^verbatim>\<open>s.endsWith(t)\<close>, \<^verbatim>\<open>s.includes(t)\<close>.\<close>

definition startsWith :: "string \<Rightarrow> string \<Rightarrow> bool" where
  "startsWith s t = (take (length t) s = t)"

definition endsWith :: "string \<Rightarrow> string \<Rightarrow> bool" where
  "endsWith s t = (length t \<le> length s \<and> drop (length s - length t) s = t)"

fun includes_str :: "string \<Rightarrow> string \<Rightarrow> bool" where
  "includes_str [] t = (t = [])"
| "includes_str (c # s) t = (startsWith (c # s) t \<or> includes_str s t)"

text \<open>
  The first occurrence of a non-empty pattern: the text before it and the text after it.
\<close>

fun split_first :: "string \<Rightarrow> string \<Rightarrow> (string \<times> string) option" where
  "split_first pat [] = None"
| "split_first pat (c # s) =
     (if startsWith (c # s) pat then Some ([], drop (length pat) (c # s))
      else (case split_first pat s of
              None \<Rightarrow> None
            | Some (b, a) \<Rightarrow> Some (c # b, a)))"

text \<open>\<^verbatim>\<open>s.split(c)\<close> for a one-character separator: never the empty list.\<close>

fun split_on :: "char \<Rightarrow> string \<Rightarrow> string list" where
  "split_on c [] = [[]]"
| "split_on c (x # xs) =
     (if x = c then [] # split_on c xs
      else (case split_on c xs of
              [] \<Rightarrow> [[x]]
            | y # ys \<Rightarrow> (x # y) # ys))"

text \<open>\<^verbatim>\<open>parts.join(c)\<close>.\<close>

fun join_with :: "char \<Rightarrow> string list \<Rightarrow> string" where
  "join_with c [] = []"
| "join_with c [p] = p"
| "join_with c (p # q # ps) = p @ c # join_with c (q # ps)"

text \<open>
  \<^verbatim>\<open>s.trim()\<close>. Strings are byte strings here, so the white space is the ASCII part of
  what JavaScript trims: tab, line feed, vertical tab, form feed, carriage return, space.
\<close>

definition is_space :: "char \<Rightarrow> bool" where
  "is_space c = (c \<in> set [CHR 0x09, CHR 0x0A, CHR 0x0B, CHR 0x0C, CHR 0x0D, CHR 0x20])"

definition trim :: "string \<Rightarrow> string" where
  "trim s = rev (dropWhile is_space (rev (dropWhile is_space s)))"

text \<open>
  \<^verbatim>\<open>new Date().toISOString().split('T')[0]\<close>: the part of the clock reading before the
  first \<^verbatim>\<open>T\<close>, the UTC calendar date.
\<close>

definition day_of :: "string \<Rightarrow> string" where
  "day_of stamp = takeWhile (\<lambda>c. c \<noteq> CHR ''T'') stamp"

text \<open>
  \<^verbatim>\<open>s.replace(/pat/, template)\<close> for a pattern of literal characters. The template of
  \<^verbatim>\<open>replace\<close> is not copied as it is: \<^verbatim>\<open>$$\<close> stands for a dollar sign, \<^verbatim>\<open>$&\<close> for the
  matched text, \<^verbatim>\<open>$`\<close> for the text before the match and \<^verbatim>\<open>$'\<close> for the text after it
  (the pattern has no capture groups, so \<^verbatim>\<open>$1\<close> and the like stay as they are).
\<close>

fun substitution :: "string \<Rightarrow> string \<Rightarrow> string \<Rightarrow> string \<Rightarrow> string" where
  "substitution m b a (c # d # r) =
     (if c = CHR ''$'' \<and> d = CHR ''$'' then CHR ''$'' # substitution m b a r
      else if c = CHR ''$'' \<and> d = CHR ''&'' then m @ substitution m b a r
      else if c = CHR ''$'' \<and> d = CHR 0x60 then b @ substitution m b a r
      else if c = CHR ''$'' \<and> d = CHR 0x27 then a @ substitution m b a r
      else c # substitution m b a (d # r))"
| "substitution m b a r = r"

definition replace_first :: "string \<Rightarrow> string \<Rightarrow> string \<Rightarrow> string" where
  "replace_first pat template s =
     (case split_first pat s of
        None \<Rightarrow> s
      | Some (b, a) \<Rightarrow> b @ substitution pat b a template @ a)"

subsection \<open>Numbers and text\<close>

text \<open>
  The decimal text of an integer, as \<^verbatim>\<open>Number.prototype.toString\<close> gives it for the
  integers it prints without an exponent (below \<open>10\<^sup>2\<^sup>1\<close> in absolute value).
\<close>

fun nat_text :: "nat \<Rightarrow> string" where
  "nat_text n =
     (if n < 10 then [char_of (48 + n)]
      else nat_text (n div 10) @ [char_of (48 + n mod 10)])"

definition int_text :: "int \<Rightarrow> string" where
  "int_text i = (if i < 0 then CHR ''-'' # nat_text (nat (- i)) else nat_text (nat i))"

text \<open>
  \<^verbatim>\<open>parseInt(s)\<close> without a radix: leading white space is skipped, a sign is read, a
  prefix \<^verbatim>\<open>0x\<close> or \<^verbatim>\<open>0X\<close> selects base 16, and the longest run of digits of the base is
  the value; with no digit the result is \<^verbatim>\<open>NaN\<close>, which is \<open>None\<close> here. (The value
  is exact here; JavaScript rounds it to a double above \<open>2\<^sup>5\<^sup>3\<close>.)
\<close>

definition digit_of :: "char \<Rightarrow> nat option" where
  "digit_of c =
     (let n = (of_char c :: nat)
      in if 48 \<le> n \<and> n \<le> 57 then Some (n - 48)
         else if 97 \<le> n \<and> n \<le> 122 then Some (n - 87)
         else if 65 \<le> n \<and> n \<le> 90 then Some (n - 55)
         else None)"

definition is_digit :: "nat \<Rightarrow> char \<Rightarrow> bool" where
  "is_digit radix c = (case digit_of c of None \<Rightarrow> False | Some d \<Rightarrow> d < radix)"

definition digits_value :: "nat \<Rightarrow> string \<Rightarrow> nat" where
  "digits_value radix ds =
     foldl (\<lambda>acc c. acc * radix + (case digit_of c of None \<Rightarrow> 0 | Some d \<Rightarrow> d)) 0 ds"

definition parseInt :: "string \<Rightarrow> int option" where
  "parseInt s =
     (let t = dropWhile is_space s;
          neg = startsWith t ''-'';
          u = (if startsWith t ''-'' \<or> startsWith t ''+'' then drop 1 t else t);
          hex = (startsWith u ''0x'' \<or> startsWith u ''0X'');
          radix = (if hex then 16 else 10);
          ds = takeWhile (is_digit radix) (if hex then drop 2 u else u)
      in if ds = [] then None
         else Some ((if neg then - 1 else 1) * int (digits_value radix ds)))"

section \<open>The vault\<close>

text \<open>
  An entry of the \<^verbatim>\<open>Pending_Approval\<close> directory: a file with its text, or something
  \<^verbatim>\<open>fs.readFile\<close> rejects (a subdirectory, a file without read permission).
  A directory is the list \<^verbatim>\<open>fs.readdir\<close> returns, each name with its entry; a
  directory that does not exist is \<open>None\<close>.

  The \<^verbatim>\<open>Logs\<close> directory is created at start-up by \<^verbatim>\<open>initVault\<close>; it maps a file name to
  the text of that file. It holds the day-buckets (\<^verbatim>\<open><date>.json\<close>) and \<^verbatim>\<open>stats.json\<close>.
\<close>

datatype entry = File string | Unreadable

type_synonym dir = "(string \<times> entry) list"

record vault =
  pending :: "dir option"
  approved :: "dir option"
  rejected :: "dir option"
  logs :: "string \<Rightarrow> filetext option"
  dashboard_md :: "string option"

section \<open>Activity log\<close>

text \<open>
  \<^verbatim>\<open>logAction\<close> (server.js 599-613). The \<^verbatim>\<open>catch\<close> around read and parse takes both a
  missing file and a SyntaxError to the empty list. \<^verbatim>\<open>logs.push\<close> is outside the
  \<^verbatim>\<open>try\<close>: a document that is not an array has no \<^verbatim>\<open>push\<close>, and the TypeError leaves
  the function before anything is written.
\<close>

definition day_file :: "string \<Rightarrow> string" where
  "day_file now = day_of now @ ''.json''"

definition logAction :: "string \<Rightarrow> json \<Rightarrow> vault \<Rightarrow> (error + unit) \<times> vault" where
  "logAction now logEntry v =
     (let logFile = day_file now;
          write = (\<lambda>ls. (Inr (), v\<lparr>logs := (logs v)(logFile \<mapsto> Json (JArr ls))\<rparr>))
      in case logs v logFile of
           None \<Rightarrow> write [logEntry]
         | Some (Garbled t) \<Rightarrow> write [logEntry]
         | Some (Json (JArr ls)) \<Rightarrow> write (ls @ [logEntry])
         | Some (Json other) \<Rightarrow> (Inl TypeError, v))"

text \<open>
  The sequence of entries a day-bucket file stores: the empty sequence when there is no
  file, the elements of the array when the file is a JSON array, and no sequence at all
  for any other content.
\<close>

definition stored_entries :: "filetext option \<Rightarrow> json list option" where
  "stored_entries c =
     (case c of
        None \<Rightarrow> Some []
      | Some (Json (JArr ls)) \<Rightarrow> Some ls
      | Some other \<Rightarrow> None)"


text \<open>Appending a list of entries, one \<^verbatim>\<open>logAction\<close> after the other, on the same day.\<close>

fun append_all :: "string \<Rightarrow> json list \<Rightarrow> vault \<Rightarrow> (error + unit) \<times> vault" where
  "append_all now [] v = (Inr (), v)"
| "append_all now (e # es) v =
     (case logAction now e v of
        (Inl err, v') \<Rightarrow> (Inl err, v')
      | (Inr u, v') \<Rightarrow> append_all now es v')"


section \<open>Approval repository\<close>

text \<open>
  \<^verbatim>\<open>parseFrontmatter\<close> (server.js 548-563). The regular expression
  \<^verbatim>\<open>/^---\n([\s\S]*?)\n---/\<close> matches when the text starts with three dashes and a line
  feed; its lazy group is the text up to the first following line feed with three
  dashes. Each line of the group that has a non-empty part before its first colon sets
  one key. An assignment to the key \<^verbatim>\<open>__proto__\<close> of a string sets no property.
\<close>

definition frontmatter_block :: "string \<Rightarrow> string option" where
  "frontmatter_block content =
     (if startsWith content ''---\<newline>''
      then (case split_first ''\<newline>---'' (drop 4 content) of
              None \<Rightarrow> None
            | Some (block, rest) \<Rightarrow> Some block)
      else None)"

definition add_line :: "(string \<Rightarrow> string option) \<Rightarrow> string \<Rightarrow> (string \<Rightarrow> string option)" where
  "add_line frontmatter line =
     (case split_on CHR '':'' line of
        [] \<Rightarrow> frontmatter
      | key # valueParts \<Rightarrow>
          if key \<noteq> [] \<and> valueParts \<noteq> [] \<and> trim key \<noteq> ''__proto__''
          then frontmatter(trim key \<mapsto> trim (join_with CHR '':'' valueParts))
          else frontmatter)"

definition parseFrontmatter :: "string \<Rightarrow> (string \<Rightarrow> string option)" where
  "parseFrontmatter content =
     (case frontmatter_block content of
        None \<Rightarrow> Map.empty
      | Some block \<Rightarrow> foldl add_line Map.empty (split_on CHR 0x0A block))"

text \<open>
  One record of the listing (server.js 447-455): an object, as a map from property
  names to JSON values. \<^verbatim>\<open>id\<close> and \<^verbatim>\<open>file\<close> come first, the header's keys are spread
  over them, and \<^verbatim>\<open>title\<close>, \<^verbatim>\<open>description\<close>, \<^verbatim>\<open>amount\<close> and \<^verbatim>\<open>recipient\<close> are set last.
  A property whose value is \<^verbatim>\<open>undefined\<close> is an absent one. \<open>now\<close> is the reading of
  \<^verbatim>\<open>Date.now()\<close> for this record.
\<close>

type_synonym approval = "string \<Rightarrow> json option"

definition file_id :: "int \<Rightarrow> string \<Rightarrow> int" where
  "file_id now file =
     (case split_on CHR ''_'' file of
        p # q # rest \<Rightarrow>
          (case parseInt q of
             None \<Rightarrow> now
           | Some n \<Rightarrow> if n \<noteq> 0 then n else now)
      | _ \<Rightarrow> now)"

definition approval_of :: "int \<Rightarrow> string \<Rightarrow> string \<Rightarrow> approval" where
  "approval_of now file content =
     (let metadata = map_option JStr \<circ> parseFrontmatter content;
          spread = [''id'' \<mapsto> JNum (of_int (file_id now file)), ''file'' \<mapsto> JStr file] ++ metadata
      in (spread(''title'' :=
             (if truthy (metadata ''subject'') then metadata ''subject'' else metadata ''action'')))
           (''description'' \<mapsto> or_else (metadata ''description'') (JStr ''Requires approval''),
            ''amount'' \<mapsto> or_else (metadata ''amount'') (JNum 0),
            ''recipient'' \<mapsto> or_else (metadata ''recipient'') (JStr ''Unknown'')))"

text \<open>
  \<^verbatim>\<open>getPendingApprovals\<close> (server.js 436-464). The loop reads every entry whose name ends
  in \<^verbatim>\<open>.md\<close>; the one \<^verbatim>\<open>try\<close> is around the whole loop, so a failing \<^verbatim>\<open>readdir\<close> or
  \<^verbatim>\<open>readFile\<close> ends in the \<^verbatim>\<open>catch\<close>, which returns the empty list. \<open>now f\<close> is the
  reading of the clock when the record of file \<open>f\<close> is built.
\<close>

fun collect :: "(string \<Rightarrow> int) \<Rightarrow> dir \<Rightarrow> error + approval list" where
  "collect now [] = Inr []"
| "collect now ((file, e) # files) =
     (if endsWith file ''.md''
      then (case e of
              Unreadable \<Rightarrow> Inl EACCES
            | File content \<Rightarrow>
                (case collect now files of
                   Inl err \<Rightarrow> Inl err
                 | Inr approvals \<Rightarrow> Inr (approval_of (now file) file content # approvals)))
      else collect now files)"

text \<open>
  For stating what the listing returns: the records of the readable \<^verbatim>\<open>.md\<close> files of a
  directory, in listing order, and whether a name has a number other than zero after
  its first underscore, so that \<open>file_id\<close> does not read the clock.
\<close>

definition md_records :: "(string \<Rightarrow> int) \<Rightarrow> dir \<Rightarrow> approval list" where
  "md_records now files =
     concat (map (\<lambda>(f, e). case e of
                              File content \<Rightarrow>
                                if endsWith f ''.md'' then [approval_of (now f) f content] else []
                            | Unreadable \<Rightarrow> []) files)"

definition numbered :: "string \<Rightarrow> bool" where
  "numbered file =
     (case split_on CHR ''_'' file of
        p # q # rest \<Rightarrow> (case parseInt q of None \<Rightarrow> False | Some n \<Rightarrow> n \<noteq> 0)
      | _ \<Rightarrow> False)"

definition getPendingApprovals :: "(string \<Rightarrow> int) \<Rightarrow> vault \<Rightarrow> approval list" where
  "getPendingApprovals now v =
     (case pending v of
        None \<Rightarrow> []
      | Some files \<Rightarrow>
          (case collect now files of
             Inl err \<Rightarrow> []
           | Inr approvals \<Rightarrow> approvals))"

text \<open>
  The identifier of a decision, as the request body carries it: a string or an integer
  number (the dashboard client sends the \<^verbatim>\<open>id\<close> of a listed record).
\<close>

datatype idval = IdStr string | IdNum int

fun id_text :: "idval \<Rightarrow> string" where
  "id_text (IdStr s) = s"
| "id_text (IdNum n) = int_text n"

fun id_truthy :: "idval option \<Rightarrow> bool" where
  "id_truthy None = False"
| "id_truthy (Some (IdStr s)) = (s \<noteq> [])"
| "id_truthy (Some (IdNum n)) = (n \<noteq> 0)"

fun id_json :: "idval \<Rightarrow> json" where
  "id_json (IdStr s) = JStr s"
| "id_json (IdNum n) = JNum (of_int n)"

text \<open>Directory operations: \<^verbatim>\<open>fs.mkdir(d, {recursive: true})\<close>, removal and writing of an entry.\<close>

datatype bucket = Approved | Rejected

definition bucket_dir :: "bucket \<Rightarrow> vault \<Rightarrow> dir option" where
  "bucket_dir b v = (case b of Approved \<Rightarrow> approved v | Rejected \<Rightarrow> rejected v)"

definition set_bucket :: "bucket \<Rightarrow> dir option \<Rightarrow> vault \<Rightarrow> vault" where
  "set_bucket b d v = (case b of Approved \<Rightarrow> v\<lparr>approved := d\<rparr> | Rejected \<Rightarrow> v\<lparr>rejected := d\<rparr>)"

definition mkdir :: "dir option \<Rightarrow> dir" where
  "mkdir d = (case d of None \<Rightarrow> [] | Some es \<Rightarrow> es)"

definition dir_remove :: "string \<Rightarrow> dir \<Rightarrow> dir" where
  "dir_remove name d = filter (\<lambda>(n, e). n \<noteq> name) d"

definition overwrite :: "string \<Rightarrow> entry \<Rightarrow> dir \<Rightarrow> dir" where
  "overwrite name e d = map (\<lambda>(n, x). if n = name then (n, e) else (n, x)) d"

definition dir_write :: "string \<Rightarrow> entry \<Rightarrow> dir \<Rightarrow> dir" where
  "dir_write name e d =
     (if name \<in> fst ` set d then overwrite name e d else d @ [(name, e)])"

text \<open>
  \<^verbatim>\<open>updateApprovalStatus\<close> (server.js 565-591). \<open>now\<close> is the reading of the clock in the
  replacement template. The file found is the first name of the listing that contains
  the identifier's text. With no such name nothing happens and nothing is signalled.
  A \<^verbatim>\<open>readFile\<close> that fails after the \<^verbatim>\<open>rename\<close> leaves the entry moved.
\<close>

definition status_template :: "string \<Rightarrow> string \<Rightarrow> string" where
  "status_template action now = ''status: '' @ action @ ''d\<newline>approved_at: '' @ now"

definition updateApprovalStatus ::
    "string \<Rightarrow> idval \<Rightarrow> string \<Rightarrow> vault \<Rightarrow> (error + unit) \<times> vault" where
  "updateApprovalStatus now approvalId action v =
     (case pending v of
        None \<Rightarrow> (Inl ENOENT, v)
      | Some files \<Rightarrow>
          (case find (\<lambda>(f, e). includes_str f (id_text approvalId)) files of
             None \<Rightarrow> (Inr (), v)
           | Some (approvalFile, e) \<Rightarrow>
               (let dest = (if action = ''approve'' then Approved else Rejected);
                    destDir = mkdir (bucket_dir dest v);
                    moved = set_bucket dest (Some (dir_write approvalFile e destDir))
                              (v\<lparr>pending := Some (dir_remove approvalFile files)\<rparr>)
                in case e of
                     Unreadable \<Rightarrow> (Inl EACCES, moved)
                   | File content \<Rightarrow>
                       (let updatedContent =
                              replace_first ''status: pending'' (status_template action now) content
                        in (Inr (),
                            set_bucket dest
                              (Some (dir_write approvalFile (File updatedContent)
                                       (dir_write approvalFile e destDir)))
                              moved)))))"

section \<open>Workflow API\<close>

text \<open>
  A response: the status code and the JSON body. The body of a decision request has the
  two fields the handler destructures; an absent field is \<open>None\<close>. The action is a
  string (the client sends \<^verbatim>\<open>approve\<close> or \<^verbatim>\<open>reject\<close>), the identifier a string or an
  integer. The handler reads the clock three times: in \<^verbatim>\<open>updateApprovalStatus\<close>, for the
  entry's \<^verbatim>\<open>timestamp\<close>, and in \<^verbatim>\<open>logAction\<close>.
\<close>

datatype response = Response (status_code: nat) (payload: json)

record approve_body =
  approvalId :: "idval option"
  action :: "string option"

record clock =
  at_decide :: string
  at_entry :: string
  at_log :: string

definition decision_entry :: "string \<Rightarrow> idval \<Rightarrow> string \<Rightarrow> json" where
  "decision_entry act i stamp =
     JObj [(''type'', JStr ''approval''), (''action'', JStr act),
           (''approvalId'', id_json i), (''timestamp'', JStr stamp)]"

text \<open>
  \<^verbatim>\<open>app.post('/api/approve')\<close> (server.js 330-359). \<^verbatim>\<open>executeApprovedAction\<close> only writes
  to the process log and is left out. Whatever is thrown ends in the \<^verbatim>\<open>catch\<close>, which
  answers 500.
\<close>

definition api_approve :: "clock \<Rightarrow> approve_body \<Rightarrow> vault \<Rightarrow> response \<times> vault" where
  "api_approve c body v =
     (case (approvalId body, action body) of
        (Some i, Some act) \<Rightarrow>
          if \<not> id_truthy (Some i) \<or> act = []
          then (Response 400 (JObj [(''error'', JStr ''Missing required fields'')]), v)
          else (case updateApprovalStatus (at_decide c) i act v of
                  (Inl err, v1) \<Rightarrow>
                    (Response 500 (JObj [(''error'', JStr ''Failed to process approval'')]), v1)
                | (Inr u, v1) \<Rightarrow>
                    (case logAction (at_log c) (decision_entry act i (at_entry c)) v1 of
                       (Inl err, v2) \<Rightarrow>
                         (Response 500 (JObj [(''error'', JStr ''Failed to process approval'')]), v2)
                     | (Inr u', v2) \<Rightarrow>
                         (Response 200
                            (JObj [(''success'', JBool True),
                                   (''message'', JStr (''Action '' @ act @ ''d successfully''))]),
                          v2)))
      | _ \<Rightarrow> (Response 400 (JObj [(''error'', JStr ''Missing required fields'')]), v))"

text \<open>
  \<^verbatim>\<open>app.post('/api/process')\<close> (server.js 362-388). The four routines only write to the
  process log; the result names the routine that ran. The \<^verbatim>\<open>switch\<close> compares with
  \<^verbatim>\<open>===\<close>, so only the four strings select a routine.
\<close>

datatype routine = ProcessEmails | ProcessWhatsApp | RunBusinessAudit | GenerateReport

definition dispatch :: "json option \<Rightarrow> error + routine" where
  "dispatch act =
     (if act = Some (JStr ''emails'') then Inr ProcessEmails
      else if act = Some (JStr ''whatsapp'') then Inr ProcessWhatsApp
      else if act = Some (JStr ''audit'') then Inr RunBusinessAudit
      else if act = Some (JStr ''report'') then Inr GenerateReport
      else Inl UnknownAction)"

definition api_process :: "json option \<Rightarrow> response \<times> routine option" where
  "api_process act =
     (case dispatch act of
        Inl err \<Rightarrow> (Response 500 (JObj [(''error'', JStr ''Unknown action'')]), None)
      | Inr r \<Rightarrow>
          (Response 200
             (JObj [(''success'', JBool True),
                    (''message'',
                     JStr ((case act of Some (JStr s) \<Rightarrow> s | _ \<Rightarrow> []) @ '' processing started''))]),
           Some r))"

section \<open>Activity feed\<close>

text \<open>
  What the feed needs from the JavaScript runtime and is not computed here: the text of
  a number in a template literal, the local time of day of a time stamp
  (\<^verbatim>\<open>new Date(x).toLocaleTimeString()\<close>), the local time of day now, and the text of the
  dashboard template.
\<close>

record js_env =
  num_text :: "rat \<Rightarrow> string"
  time_text :: "json option \<Rightarrow> string"
  time_now :: string
  dashboard_template :: string

text \<open>
  The text of a value in a template literal or as a property key (\<^verbatim>\<open>ToString\<close>). An
  object converts through \<^verbatim>\<open>Object.prototype.toString\<close>, unless it has an own key
  \<^verbatim>\<open>toString\<close>: the value of that key comes from JSON and is not callable, \<^verbatim>\<open>valueOf\<close>
  returns the object itself, and the conversion throws a TypeError. An array is joined
  with commas: a \<^verbatim>\<open>null\<close> element gives the empty text, every other element is converted
  in turn, and the first one that throws ends the conversion.
\<close>

fun sequence_results :: "(error + 'a) list \<Rightarrow> error + 'a list" where
  "sequence_results [] = Inr []"
| "sequence_results (r # rs) =
     (case r of
        Inl err \<Rightarrow> Inl err
      | Inr x \<Rightarrow>
          (case sequence_results rs of
             Inl err \<Rightarrow> Inl err
           | Inr xs \<Rightarrow> Inr (x # xs)))"

fun json_text :: "(rat \<Rightarrow> string) \<Rightarrow> json \<Rightarrow> error + string" where
  "json_text nt JNull = Inr ''null''"
| "json_text nt (JBool b) = Inr (if b then ''true'' else ''false'')"
| "json_text nt (JNum r) = Inr (nt r)"
| "json_text nt (JStr s) = Inr s"
| "json_text nt (JArr xs) =
     (case sequence_results (map (\<lambda>x. if x = JNull then Inr [] else json_text nt x) xs) of
        Inl err \<Rightarrow> Inl err
      | Inr parts \<Rightarrow> Inr (join_with CHR '','' parts))"
| "json_text nt (JObj kv) =
     (if ''toString'' \<in> fst ` set kv then Inl TypeError else Inr ''[object Object]'')"

definition js_text :: "(rat \<Rightarrow> string) \<Rightarrow> json option \<Rightarrow> error + string" where
  "js_text nt x = (case x of None \<Rightarrow> Inr ''undefined'' | Some j \<Rightarrow> json_text nt j)"

text \<open>
  The values whose conversion does not throw: no object with an own key \<^verbatim>\<open>toString\<close>,
  and no array that holds such an object at any depth. A log entry can be displayed
  when it is not \<^verbatim>\<open>null\<close> and its \<^verbatim>\<open>action_type\<close> and \<^verbatim>\<open>timestamp\<close>, where present, are of
  that kind.
\<close>

fun convertible :: "json \<Rightarrow> bool" where
  "convertible (JArr xs) = list_all convertible xs"
| "convertible (JObj kv) = (''toString'' \<notin> fst ` set kv)"
| "convertible j = True"

definition displayable :: "json \<Rightarrow> bool" where
  "displayable lg =
     (lg \<noteq> JNull
      \<and> (case field lg ''action_type'' of None \<Rightarrow> True | Some j \<Rightarrow> convertible j)
      \<and> (case field lg ''timestamp'' of None \<Rightarrow> True | Some j \<Rightarrow> convertible j))"

text \<open>
  \<^verbatim>\<open>table[key] || dflt\<close> on an object literal whose values are non-empty strings: the
  table's own string, or what \<^verbatim>\<open>Object.prototype\<close> has under that name (a function or an
  object, which is truthy and which \<^verbatim>\<open>res.json\<close> leaves out), or the default.
\<close>

datatype display = Text string | Inherited string

definition proto_names :: "string list" where
  "proto_names =
     [''constructor'', ''__defineGetter__'', ''__defineSetter__'', ''hasOwnProperty'',
      ''__lookupGetter__'', ''__lookupSetter__'', ''isPrototypeOf'', ''propertyIsEnumerable'',
      ''toString'', ''valueOf'', ''__proto__'', ''toLocaleString'']"

definition table_lookup :: "(string \<times> string) list \<Rightarrow> string \<Rightarrow> string \<Rightarrow> display" where
  "table_lookup table dflt key =
     (case map_of table key of
        Some s \<Rightarrow> Text s
      | None \<Rightarrow> if key \<in> set proto_names then Inherited key else Text dflt)"

definition getActivityTitle :: "js_env \<Rightarrow> json \<Rightarrow> error + display" where
  "getActivityTitle env lg =
     (case js_text (num_text env) (field lg ''action_type'') of
        Inl err \<Rightarrow> Inl err
      | Inr key \<Rightarrow>
          Inr (table_lookup
                 [(''email_send'', ''Email sent''), (''whatsapp_reply'', ''WhatsApp replied''),
                  (''payment_processed'', ''Payment processed''),
                  (''social_post'', ''Social media post''),
                  (''audit_completed'', ''Audit completed'')]
                 ''Action performed'' key))"

definition getActivityDescription :: "js_env \<Rightarrow> json \<Rightarrow> error + json" where
  "getActivityDescription env lg =
     (let fallback = (case js_text (num_text env) (field lg ''action_type'') of
                        Inl err \<Rightarrow> Inl err
                      | Inr t \<Rightarrow> Inr (JStr (''Action: '' @ t)))
      in case field lg ''description'' of
           None \<Rightarrow> fallback
         | Some d \<Rightarrow> if truthy (Some d) then Inr d else fallback)"

definition getActivityIcon :: "js_env \<Rightarrow> json option \<Rightarrow> error + display" where
  "getActivityIcon env actionType =
     (case js_text (num_text env) actionType of
        Inl err \<Rightarrow> Inl err
      | Inr key \<Rightarrow>
          Inr (table_lookup
                 [(''email_send'', ''fas fa-envelope''), (''whatsapp_reply'', ''fab fa-whatsapp''),
                  (''payment_processed'', ''fas fa-credit-card''),
                  (''social_post'', ''fas fa-share-alt''),
                  (''audit_completed'', ''fas fa-chart-bar'')]
                 ''fas fa-cog'' key))"

definition getActivityColor :: "js_env \<Rightarrow> json option \<Rightarrow> error + display" where
  "getActivityColor env actionType =
     (case js_text (num_text env) actionType of
        Inl err \<Rightarrow> Inl err
      | Inr key \<Rightarrow>
          Inr (table_lookup
                 [(''email_send'', ''#2563eb''), (''whatsapp_reply'', ''#25d366''),
                  (''payment_processed'', ''#10b981''), (''social_post'', ''#0077b5''),
                  (''audit_completed'', ''#f59e0b'')]
                 ''#6b7280'' key))"

text \<open>
  \<^verbatim>\<open>new Date(x).toLocaleTimeString()\<close>: \<^verbatim>\<open>new Date\<close> converts an object or an array to a
  primitive first (\<^verbatim>\<open>valueOf\<close>, which returns the object itself, then \<^verbatim>\<open>toString\<close>), and
  throws exactly when the conversion to text does.
\<close>

definition activity_time :: "js_env \<Rightarrow> json option \<Rightarrow> error + string" where
  "activity_time env stamp =
     (case js_text (num_text env) stamp of
        Inl err \<Rightarrow> Inl err
      | Inr t \<Rightarrow> Inr (time_text env stamp))"

text \<open>
  An element of the feed (server.js 476-484). The properties are evaluated in the order
  of the object literal; a \<^verbatim>\<open>null\<close> entry throws at the first property read, and a
  conversion that throws leaves the callback with the TypeError.
\<close>

record activity =
  id_a :: "json option"
  type_a :: "json option"
  title :: display
  description :: json
  time :: string
  icon :: display
  iconColor :: display

definition activity_of :: "js_env \<Rightarrow> json \<Rightarrow> error + activity" where
  "activity_of env lg =
     (if lg = JNull then Inl TypeError
      else (case getActivityTitle env lg of
              Inl err \<Rightarrow> Inl err
            | Inr ttl \<Rightarrow>
          (case getActivityDescription env lg of
              Inl err \<Rightarrow> Inl err
            | Inr dsc \<Rightarrow>
          (case activity_time env (field lg ''timestamp'') of
              Inl err \<Rightarrow> Inl err
            | Inr tm \<Rightarrow>
          (case getActivityIcon env (field lg ''action_type'') of
              Inl err \<Rightarrow> Inl err
            | Inr icn \<Rightarrow>
          (case getActivityColor env (field lg ''action_type'') of
              Inl err \<Rightarrow> Inl err
            | Inr clr \<Rightarrow>
                Inr \<lparr>id_a = field lg ''timestamp'',
                     type_a = field lg ''action_type'',
                     title = ttl,
                     description = dsc,
                     time = tm,
                     icon = icn,
                     iconColor = clr\<rparr>))))))"

definition getSampleActivities :: "js_env \<Rightarrow> activity list" where
  "getSampleActivities env =
     [\<lparr>id_a = Some (JNum 1),
       type_a = Some (JStr ''email''),
       title = Text ''System initialized'',
       description = JStr ''AI Employee started successfully'',
       time = time_now env,
       icon = Text ''fas fa-rocket'',
       iconColor = Text ''#10b981''\<rparr>]"

text \<open>
  \<^verbatim>\<open>getRecentActivities\<close> (server.js 466-495). \<^verbatim>\<open>logs.slice(-10)\<close> keeps the last ten
  elements in their order. Everything that throws inside the inner \<^verbatim>\<open>try\<close> (no file,
  a SyntaxError, a document that is not an array, and a TypeError of the \<^verbatim>\<open>map\<close> callback
  on any of the ten elements) ends in the sample activities.
\<close>

definition getRecentActivities :: "js_env \<Rightarrow> string \<Rightarrow> vault \<Rightarrow> activity list" where
  "getRecentActivities env now v =
     (case logs v (day_file now) of
        Some (Json (JArr ls)) \<Rightarrow>
          (case sequence_results (map (activity_of env) (drop (length ls - 10) ls)) of
             Inl err \<Rightarrow> getSampleActivities env
           | Inr activities \<Rightarrow> activities)
      | _ \<Rightarrow> getSampleActivities env)"

section \<open>Dashboard aggregator\<close>

record stats =
  weeklyRevenue :: json
  pendingTasks :: json
  unreadMessages :: json
  aiUptime :: json

record snapshot =
  aiActive :: bool
  pendingApprovals :: "approval list"
  recentActivities :: "activity list"
  stats :: stats
  dashboardContent :: string

definition default_stats :: stats where
  "default_stats =
     \<lparr>weeklyRevenue = JNum 2450, pendingTasks = JNum 8,
      unreadMessages = JNum 5, aiUptime = JNum 99.8\<rparr>"

definition getDefaultDashboardData :: "js_env \<Rightarrow> snapshot" where
  "getDefaultDashboardData env =
     \<lparr>aiActive = True,
      pendingApprovals = [],
      recentActivities = getSampleActivities env,
      stats = default_stats,
      dashboardContent = dashboard_template env\<rparr>"

text \<open>
  \<^verbatim>\<open>getDashboardData\<close> (server.js 404-434). Only the read of the stats side-file has a
  \<^verbatim>\<open>catch\<close> of its own, which stands in the text \<^verbatim>\<open>{}\<close>. A failing read of
  \<^verbatim>\<open>Dashboard.md\<close>, a SyntaxError of \<^verbatim>\<open>JSON.parse\<close> and the property read on a stats
  document that is \<^verbatim>\<open>null\<close> all end in the outer \<^verbatim>\<open>catch\<close>, which returns the default
  snapshot. \<open>stats_document\<close> is \<^verbatim>\<open>JSON.parse(statsContent)\<close>, \<open>None\<close> when it throws.
  \<open>clk\<close> gives the clock to the listing, \<open>now\<close> is the clock reading of the feed.
\<close>

definition stats_document :: "vault \<Rightarrow> json option" where
  "stats_document v =
     (case logs v ''stats.json'' of
        None \<Rightarrow> Some (JObj [])
      | Some (Json st) \<Rightarrow> Some st
      | Some (Garbled t) \<Rightarrow> None)"

definition getDashboardData :: "js_env \<Rightarrow> (string \<Rightarrow> int) \<Rightarrow> string \<Rightarrow> vault \<Rightarrow> snapshot" where
  "getDashboardData env clk now v =
     (case dashboard_md v of
        None \<Rightarrow> getDefaultDashboardData env
      | Some content \<Rightarrow>
          (case stats_document v of
             None \<Rightarrow> getDefaultDashboardData env
           | Some st \<Rightarrow>
               if st = JNull then getDefaultDashboardData env
               else \<lparr>aiActive = True,
                     pendingApprovals = getPendingApprovals clk v,
                     recentActivities = getRecentActivities env now v,
                     stats =
                       \<lparr>weeklyRevenue = or_else (field st ''weeklyRevenue'') (JNum 2450),
                        pendingTasks = or_else (field st ''pendingTasks'') (JNum 8),
                        unreadMessages = or_else (field st ''unreadMessages'') (JNum 5),
                        aiUptime = or_else (field st ''aiUptime'') (JNum 99.8)\<rparr>,
                     dashboardContent = content\<rparr>))"

section \<open>Example states\<close>

text \<open>
  A pending request as the watcher scripts write it, a vault that holds it, the vault
  with a second request whose identifier has the first one's as a prefix, and the
  texts the two decisions leave behind.
\<close>

definition pay_request :: string where
  "pay_request =
     ''---\<newline>action: make_payment\<newline>amount: 89\<newline>recipient: Hosting Provider\<newline>status: pending\<newline>---\<newline>Pay the bill''"

definition example_vault :: vault where
  "example_vault =
     \<lparr>pending = Some [(''APPROVAL_12_pay.md'', File pay_request)],
      approved = Some [], rejected = None, logs = (\<lambda>n. None), dashboard_md = Some ''# Dashboard''\<rparr>"

definition example_clock :: clock where
  "example_clock =
     \<lparr>at_decide = ''2026-01-05T10:00:00.000Z'', at_entry = ''2026-01-05T10:00:01.000Z'',
      at_log = ''2026-01-05T10:00:02.000Z''\<rparr>"

definition approved_request :: string where
  "approved_request =
     ''---\<newline>action: make_payment\<newline>amount: 89\<newline>recipient: Hosting Provider\<newline>status: approved\<newline>approved_at: 2026-01-05T10:00:00.000Z\<newline>---\<newline>Pay the bill''"

definition two_requests :: vault where
  "two_requests =
     example_vault\<lparr>pending := Some [(''APPROVAL_123_mail.md'', File pay_request),
                                      (''APPROVAL_12_pay.md'', File pay_request)]\<rparr>"

definition one_unreadable :: vault where
  "one_unreadable =
     example_vault\<lparr>pending := Some [(''APPROVAL_12_pay.md'', File pay_request),
                                      (''APPROVAL_13_old.md'', Unreadable)]\<rparr>"

definition unnumbered :: vault where
  "unnumbered = example_vault\<lparr>pending := Some [(''notes.md'', File ''remember the milk'')]\<rparr>"

definition example_env :: js_env where
  "example_env =
     \<lparr>num_text = (\<lambda>r. ''0''), time_text = (\<lambda>j. ''10:00:00 AM''), time_now = ''11:00:00 AM'',
      dashboard_template = ''# AI Employee Dashboard''\<rparr>"

definition first_entry :: json where
  "first_entry =
     JObj [(''timestamp'', JStr ''2026-01-05T09:00:00.000Z''), (''action_type'', JStr ''email_send'')]"

definition second_entry :: json where
  "second_entry =
     JObj [(''timestamp'', JStr ''2026-01-05T09:30:00.000Z''), (''action_type'', JStr ''audit_completed'')]"

definition first_activity :: activity where
  "first_activity =
     \<lparr>id_a = Some (JStr ''2026-01-05T09:00:00.000Z''), type_a = Some (JStr ''email_send''),
      title = Text ''Email sent'', description = JStr ''Action: email_send'',
      time = ''10:00:00 AM'', icon = Text ''fas fa-envelope'', iconColor = Text ''#2563eb''\<rparr>"

definition second_activity :: activity where
  "second_activity =
     \<lparr>id_a = Some (JStr ''2026-01-05T09:30:00.000Z''), type_a = Some (JStr ''audit_completed''),
      title = Text ''Audit completed'', description = JStr ''Action: audit_completed'',
      time = ''10:00:00 AM'', icon = Text ''fas fa-chart-bar'', iconColor = Text ''#f59e0b''\<rparr>"

definition odd_entry :: json where
  "odd_entry =
     JObj [(''timestamp'', JStr ''2026-01-05T09:45:00.000Z''),
           (''action_type'', JObj [(''toString'', JNum 1)])]"

definition rejected_request :: string where
  "rejected_request =
     ''---\<newline>action: make_payment\<newline>amount: 89\<newline>recipient: Hosting Provider\<newline>status: rejectd\<newline>approved_at: 2026-01-05T10:00:00.000Z\<newline>---\<newline>Pay the bill''"


section \<open>Properties of the activity log\<close>

lemma logAction_array:
  "logs v (day_file now) = Some (Json (JArr ls)) \<Longrightarrow>
   logAction now e v = (Inr (), v\<lparr>logs := (logs v)(day_file now \<mapsto> Json (JArr (ls @ [e])))\<rparr>)"
  by (simp add: logAction_def)

lemma logAction_absent:
  "logs v (day_file now) = None \<Longrightarrow>
   logAction now e v = (Inr (), v\<lparr>logs := (logs v)(day_file now \<mapsto> Json (JArr [e]))\<rparr>)"
  by (simp add: logAction_def)

lemma logAction_unparsable:
  "logs v (day_file now) = Some (Garbled t) \<Longrightarrow>
   logAction now e v = (Inr (), v\<lparr>logs := (logs v)(day_file now \<mapsto> Json (JArr [e]))\<rparr>)"
  by (simp add: logAction_def)

lemma logAction_not_array:
  "logs v (day_file now) = Some (Json j) \<Longrightarrow> \<not> is_array j \<Longrightarrow>
   logAction now e v = (Inl TypeError, v)"
  by (cases j) (simp_all add: logAction_def)

lemma stored_entries_simps [simp]:
  "stored_entries None = Some []"
  "stored_entries (Some (Json (JArr ls))) = Some ls"
  "stored_entries (Some (Garbled t)) = None"
  by (simp_all add: stored_entries_def)

lemma stored_entries_SomeD:
  "stored_entries c = Some ls \<Longrightarrow> (c = None \<and> ls = []) \<or> c = Some (Json (JArr ls))"
  by (auto simp: stored_entries_def split: option.splits filetext.splits json.splits)

lemma logAction_stored:
  assumes "stored_entries (logs v (day_file now)) = Some ls"
  shows "logAction now e v =
           (Inr (), v\<lparr>logs := (logs v)(day_file now \<mapsto> Json (JArr (ls @ [e])))\<rparr>)"
  using stored_entries_SomeD [OF assms]
  by (auto simp: logAction_absent logAction_array)

lemma logAction_other_files:
  "n \<noteq> day_file now \<Longrightarrow> logs (snd (logAction now e v)) n = logs v n"
  by (auto simp: logAction_def Let_def split: option.splits filetext.splits json.splits)

lemma append_all_stored:
  "stored_entries (logs v (day_file now)) = Some ls \<Longrightarrow>
   append_all now es v =
     (Inr (), if es = [] then v
              else v\<lparr>logs := (logs v)(day_file now \<mapsto> Json (JArr (ls @ es)))\<rparr>)"
proof (induction es arbitrary: v ls)
  case Nil
  then show ?case by simp
next
  case (Cons e es)
  let ?v1 = "v\<lparr>logs := (logs v)(day_file now \<mapsto> Json (JArr (ls @ [e])))\<rparr>"
  have step: "logAction now e v = (Inr (), ?v1)"
    by (rule logAction_stored [OF Cons.prems])
  have st1: "stored_entries (logs ?v1 (day_file now)) = Some (ls @ [e])"
    by simp
  have "append_all now (e # es) v = append_all now es ?v1"
    by (simp add: step)
  also have "\<dots> = (Inr (), if es = [] then ?v1
       else ?v1\<lparr>logs := (logs ?v1)(day_file now \<mapsto> Json (JArr ((ls @ [e]) @ es)))\<rparr>)"
    by (rule Cons.IH [OF st1])
  also have "\<dots> = (Inr (), v\<lparr>logs := (logs v)(day_file now \<mapsto> Json (JArr (ls @ e # es)))\<rparr>)"
    by simp
  finally show ?case by simp
qed




section \<open>Deciding a request\<close>

lemma updateApprovalStatus_no_match:
  "pending v = Some files \<Longrightarrow> find (\<lambda>(f, e). includes_str f (id_text i)) files = None \<Longrightarrow>
   updateApprovalStatus now i act v = (Inr (), v)"
  by (simp add: updateApprovalStatus_def)

lemma find_None_list_all:
  "list_all (\<lambda>(f, e). \<not> P f) xs \<Longrightarrow> find (\<lambda>(f, e). P f) xs = None"
  by (induction xs) auto

lemma int_text_99: "int_text 99 = ''99''" by code_simp
lemma day_file_example: "day_file ''2026-01-05T10:00:02.000Z'' = ''2026-01-05.json''"
  by (simp add: day_file_def day_of_def)

lemma day_file_morning: "day_file ''2026-01-05T10:00:00.000Z'' = ''2026-01-05.json''"
  by (simp add: day_file_def day_of_def)

text \<open>
  C1 (as amended). When no name in the pending bucket contains the identifier's text,
  \<^verbatim>\<open>updateApprovalStatus\<close> returns normally and leaves the vault as it is: no file is moved
  or rewritten, and nothing tells the caller that no request was found. The handler then
  appends the decision to the day-bucket and answers 200 with the success message, as
  for a request that was found.
\<close>

theorem decide_not_found:
  assumes pend: "pending v = Some files"
    and nomatch: "list_all (\<lambda>(f, e). \<not> includes_str f (id_text i)) files"
    and idt: "id_truthy (Some i)"
    and actt: "act \<noteq> []"
    and st: "stored_entries (logs v (day_file (at_log c))) = Some ls"
  shows "updateApprovalStatus (at_decide c) i act v = (Inr (), v)
       \<and> api_approve c \<lparr>approvalId = Some i, action = Some act\<rparr> v =
           (Response 200
              (JObj [(''success'', JBool True),
                     (''message'', JStr (''Action '' @ act @ ''d successfully''))]),
            v\<lparr>logs := (logs v)(day_file (at_log c) \<mapsto>
                  Json (JArr (ls @ [decision_entry act i (at_entry c)])))\<rparr>)"
proof -
  from nomatch have "find (\<lambda>(f, e). includes_str f (id_text i)) files = None"
    by (rule find_None_list_all)
  then have upd: "updateApprovalStatus (at_decide c) i act v = (Inr (), v)"
    using pend by (rule updateApprovalStatus_no_match [rotated])
  have lg: "logAction (at_log c) (decision_entry act i (at_entry c)) v =
      (Inr (), v\<lparr>logs := (logs v)(day_file (at_log c) \<mapsto>
                  Json (JArr (ls @ [decision_entry act i (at_entry c)])))\<rparr>)"
    by (rule logAction_stored [OF st])
  show ?thesis
    using idt actt by (simp add: api_approve_def upd lg)
qed

theorem decide_not_found_witness:
  "api_approve example_clock \<lparr>approvalId = Some (IdNum 99), action = Some ''approve''\<rparr> example_vault =
     (Response 200
        (JObj [(''success'', JBool True), (''message'', JStr ''Action approved successfully'')]),
      example_vault\<lparr>logs := (logs example_vault)(''2026-01-05.json'' \<mapsto>
         Json (JArr [decision_entry ''approve'' (IdNum 99) ''2026-01-05T10:00:01.000Z'']))\<rparr>)"
  using decide_not_found [of example_vault "[(''APPROVAL_12_pay.md'', File pay_request)]"
      "IdNum 99" "''approve''" example_clock "[]"]
  by (simp add: example_vault_def example_clock_def int_text_99 startsWith_def day_file_example)

text \<open>
  C1 (as stated) fails: a decision on the unknown identifier 99 is answered with the
  success message, and the day-bucket, absent before, holds the decision afterwards.
\<close>

theorem decide_not_found_counterexample:
  "find (\<lambda>(f, e). includes_str f (id_text (IdNum 99))) [(''APPROVAL_12_pay.md'', File pay_request)] = None
   \<and> pending example_vault = Some [(''APPROVAL_12_pay.md'', File pay_request)]
   \<and> fst (api_approve example_clock \<lparr>approvalId = Some (IdNum 99), action = Some ''approve''\<rparr> example_vault) =
     Response 200
        (JObj [(''success'', JBool True), (''message'', JStr ''Action approved successfully'')])
   \<and> logs example_vault ''2026-01-05.json'' = None
   \<and> logs (snd (api_approve example_clock \<lparr>approvalId = Some (IdNum 99), action = Some ''approve''\<rparr> example_vault))
        ''2026-01-05.json'' =
       Some (Json (JArr [JObj [(''type'', JStr ''approval''), (''action'', JStr ''approve''),
           (''approvalId'', JNum 99), (''timestamp'', JStr ''2026-01-05T10:00:01.000Z'')]]))"
  by (simp add: api_approve_def updateApprovalStatus_def logAction_def example_vault_def example_clock_def
      int_text_99 startsWith_def day_file_example decision_entry_def)

lemma substitution_plain:
  "CHR ''$'' \<notin> set t \<Longrightarrow> substitution m b a t = t"
  by (induction m b a t rule: substitution.induct) auto

lemma replace_first_found:
  "split_first pat s = Some (b, a) \<Longrightarrow> CHR ''$'' \<notin> set t \<Longrightarrow>
   replace_first pat t s = b @ t @ a"
  by (simp add: replace_first_def substitution_plain)

lemma overwrite_names:
  "fst ` set (overwrite f e d) = fst ` set d"
  by (induction d) (auto simp: overwrite_def)

lemma overwrite_absent:
  "f \<notin> fst ` set d \<Longrightarrow> overwrite f e d = d"
  by (induction d) (auto simp: overwrite_def)

lemma overwrite_twice:
  "overwrite f e2 (overwrite f e1 d) = overwrite f e2 d"
  by (induction d) (auto simp: overwrite_def)

lemma overwrite_append:
  "overwrite f e (d @ d') = overwrite f e d @ overwrite f e d'"
  by (simp add: overwrite_def)

lemma map_of_overwrite:
  "f \<in> fst ` set d \<Longrightarrow> map_of (overwrite f e d) f = Some e"
  by (induction d) (auto simp: overwrite_def)

lemma dir_write_twice:
  "dir_write f e2 (dir_write f e1 d) = dir_write f e2 d"
proof (cases "f \<in> fst ` set d")
  case True
  then show ?thesis
    by (simp add: dir_write_def overwrite_names overwrite_twice)
next
  case False
  have "overwrite f e2 [(f, e1)] = [(f, e2)]"
    by (simp add: overwrite_def)
  with False show ?thesis
    by (simp add: dir_write_def overwrite_append overwrite_absent)
qed

lemma map_of_dir_write:
  "map_of (dir_write f e d) f = Some e"
proof (cases "f \<in> fst ` set d")
  case True
  then show ?thesis by (simp add: dir_write_def map_of_overwrite)
next
  case False
  then have "map_of d f = None" by (simp add: map_of_eq_None_iff)
  with False show ?thesis by (simp add: dir_write_def map_add_def)
qed

lemma find_pair_SomeD:
  "find (\<lambda>(f, e). P f) xs = Some (g, x) \<Longrightarrow> (g, x) \<in> set xs \<and> P g"
  by (induction xs) (auto split: if_splits)

lemma collect_mem:
  "collect clk d = Inr rs \<Longrightarrow> r \<in> set rs \<Longrightarrow>
   \<exists>g c. (g, File c) \<in> set d \<and> endsWith g ''.md'' \<and> r = approval_of (clk g) g c"
proof (induction d arbitrary: rs)
  case Nil
  then show ?case by simp
next
  case (Cons p d)
  obtain g e where p: "p = (g, e)" by (cases p)
  show ?case
  proof (cases "endsWith g ''.md''")
    case False
    with Cons.prems p have "collect clk d = Inr rs" by simp
    from Cons.IH [OF this Cons.prems(2)] show ?thesis by auto
  next
    case True
    with Cons.prems(1) p obtain c rs' where e: "e = File c"
      and rest: "collect clk d = Inr rs'" and rs: "rs = approval_of (clk g) g c # rs'"
      by (auto split: entry.splits sum.splits)
    show ?thesis
    proof (cases "r = approval_of (clk g) g c")
      case True
      with p e \<open>endsWith g ''.md''\<close> show ?thesis by auto
    next
      case False
      with Cons.prems(2) rs have "r \<in> set rs'" by simp
      from Cons.IH [OF rest this] show ?thesis by auto
    qed
  qed
qed

lemma getPendingApprovals_mem:
  "pending v = Some d \<Longrightarrow> r \<in> set (getPendingApprovals clk v) \<Longrightarrow>
   \<exists>g c. (g, File c) \<in> set d \<and> endsWith g ''.md'' \<and> r = approval_of (clk g) g c"
  by (cases "collect clk d") (auto simp: getPendingApprovals_def dest: collect_mem)

lemma set_dir_remove:
  "set (dir_remove f d) = {(g, e). (g, e) \<in> set d \<and> g \<noteq> f}"
  by (auto simp: dir_remove_def)

lemma status_template_approve:
  "status_template ''approve'' now = ''status: approved\<newline>approved_at: '' @ now"
  by (simp add: status_template_def)

lemma int_text_12: "int_text 12 = ''12''" by code_simp

lemma find_12: "find (\<lambda>(f, e). includes_str f (id_text (IdNum 12))) [(''APPROVAL_12_pay.md'', File pay_request)]
   = Some (''APPROVAL_12_pay.md'', File pay_request)"
  by (simp add: int_text_12 startsWith_def)

lemma split_pay: "split_first ''status: pending'' pay_request =
  Some (''---\<newline>action: make_payment\<newline>amount: 89\<newline>recipient: Hosting Provider\<newline>'', ''\<newline>---\<newline>Pay the bill'')"
  by (simp add: pay_request_def startsWith_def)

lemma parse_approved:
  "parseFrontmatter approved_request ''status'' = Some ''approved''"
  "parseFrontmatter approved_request ''approved_at'' = Some ''2026-01-05T10:00:00.000Z''"
  by (simp_all add: parseFrontmatter_def approved_request_def frontmatter_block_def startsWith_def add_line_def trim_def is_space_def)

text \<open>
  C2 (as amended). Let \<open>f\<close> be the first name of the pending bucket that contains the
  identifier's text, a readable file whose text contains \<^verbatim>\<open>status: pending\<close>. Then
  \<^verbatim>\<open>decide(id, approve)\<close> succeeds; \<open>f\<close> is no longer in the pending bucket and is in the
  Approved bucket, its text being the old text with the first \<^verbatim>\<open>status: pending\<close>
  replaced by \<^verbatim>\<open>status: approved\<close> and a line \<^verbatim>\<open>approved_at: <time>\<close>; every record listed
  afterwards comes from another file of the bucket, so the identifier is no longer
  listed unless another pending file yields it.
\<close>

theorem approve_moves_file:
  assumes pend: "pending v = Some files"
    and found: "find (\<lambda>(f, e). includes_str f (id_text i)) files = Some (f, File content)"
    and occurs: "split_first ''status: pending'' content = Some (b, a)"
    and stamp: "CHR ''$'' \<notin> set now"
  shows "let updated = b @ ''status: approved\<newline>approved_at: '' @ now @ a;
             v' = v\<lparr>pending := Some (dir_remove f files),
                     approved := Some (dir_write f (File updated) (mkdir (approved v)))\<rparr>
         in updateApprovalStatus now i ''approve'' v = (Inr (), v')
          \<and> f \<notin> fst ` set (dir_remove f files)
          \<and> map_of (dir_write f (File updated) (mkdir (approved v))) f = Some (File updated)
          \<and> (\<forall>r \<in> set (getPendingApprovals clk v').
                \<exists>g c. (g, File c) \<in> set files \<and> g \<noteq> f \<and> endsWith g ''.md'' \<and>
                      r = approval_of (clk g) g c)
          \<and> ((\<forall>g c. (g, File c) \<in> set files \<and> g \<noteq> f \<and> endsWith g ''.md'' \<longrightarrow>
                      approval_of (clk g) g c ''id'' \<noteq> Some (id_json i))
               \<longrightarrow> (\<forall>r \<in> set (getPendingApprovals clk v'). r ''id'' \<noteq> Some (id_json i)))"
proof -
  define updated where "updated = b @ ''status: approved\<newline>approved_at: '' @ now @ a"
  define v' where "v' = v\<lparr>pending := Some (dir_remove f files),
                     approved := Some (dir_write f (File updated) (mkdir (approved v)))\<rparr>"
  have dollar: "CHR ''$'' \<notin> set (status_template ''approve'' now)"
    using stamp by (simp add: status_template_def)
  have rep: "replace_first ''status: pending'' (status_template ''approve'' now) content = updated"
    using replace_first_found [OF occurs dollar]
    by (simp add: updated_def status_template_approve)
  have run: "updateApprovalStatus now i ''approve'' v = (Inr (), v')"
    by (simp add: updateApprovalStatus_def pend found rep set_bucket_def bucket_dir_def
        dir_write_twice v'_def)
  have gone: "f \<notin> fst ` set (dir_remove f files)"
    by (auto simp: set_dir_remove)
  have there: "map_of (dir_write f (File updated) (mkdir (approved v))) f = Some (File updated)"
    by (rule map_of_dir_write)
  have pend': "pending v' = Some (dir_remove f files)"
    by (simp add: v'_def)
  have listed: "\<exists>g c. (g, File c) \<in> set files \<and> g \<noteq> f \<and> endsWith g ''.md'' \<and>
                      r = approval_of (clk g) g c"
    if "r \<in> set (getPendingApprovals clk v')" for r
    using getPendingApprovals_mem [OF pend' that] by (auto simp: set_dir_remove)
  have ids: "\<forall>r \<in> set (getPendingApprovals clk v'). r ''id'' \<noteq> Some (id_json i)"
    if others: "\<forall>g c. (g, File c) \<in> set files \<and> g \<noteq> f \<and> endsWith g ''.md'' \<longrightarrow>
                      approval_of (clk g) g c ''id'' \<noteq> Some (id_json i)"
  proof
    fix r assume "r \<in> set (getPendingApprovals clk v')"
    from listed [OF this] obtain g c where "(g, File c) \<in> set files" "g \<noteq> f"
      "endsWith g ''.md''" "r = approval_of (clk g) g c" by blast
    with others show "r ''id'' \<noteq> Some (id_json i)" by blast
  qed
  from run gone there listed ids show ?thesis
    unfolding Let_def updated_def [symmetric] v'_def [symmetric] by blast
qed

theorem approve_moves_file_witness:
  "updateApprovalStatus ''2026-01-05T10:00:00.000Z'' (IdNum 12) ''approve'' example_vault =
     (Inr (), example_vault\<lparr>pending := Some [],
                approved := Some [(''APPROVAL_12_pay.md'', File approved_request)]\<rparr>)
   \<and> getPendingApprovals (\<lambda>f. 1000)
        (example_vault\<lparr>pending := Some [],
                approved := Some [(''APPROVAL_12_pay.md'', File approved_request)]\<rparr>) = []
   \<and> parseFrontmatter approved_request ''status'' = Some ''approved''
   \<and> parseFrontmatter approved_request ''approved_at'' = Some ''2026-01-05T10:00:00.000Z''"
proof -
  have pend: "pending example_vault = Some [(''APPROVAL_12_pay.md'', File pay_request)]"
    by (simp add: example_vault_def)
  have stamp: "CHR ''$'' \<notin> set ''2026-01-05T10:00:00.000Z''"
    by simp
  from approve_moves_file [OF pend find_12 split_pay stamp, of "\<lambda>f. 1000"]
  have "updateApprovalStatus ''2026-01-05T10:00:00.000Z'' (IdNum 12) ''approve'' example_vault =
     (Inr (), example_vault\<lparr>pending := Some [],
                approved := Some [(''APPROVAL_12_pay.md'', File approved_request)]\<rparr>)"
    by (simp add: Let_def dir_remove_def dir_write_def mkdir_def example_vault_def approved_request_def)
  moreover have "getPendingApprovals (\<lambda>f. 1000)
        (example_vault\<lparr>pending := Some [],
                approved := Some [(''APPROVAL_12_pay.md'', File approved_request)]\<rparr>) = []"
    by (simp add: getPendingApprovals_def)
  ultimately show ?thesis
    by (simp add: parse_approved)
qed

lemma file_id_examples:
  "file_id n ''APPROVAL_123_mail.md'' = 123"
  "file_id n ''APPROVAL_12_pay.md'' = 12"
  by (simp_all add: file_id_def parseInt_def startsWith_def is_space_def is_digit_def digit_of_def digits_value_def)

lemma parse_pay_id: "parseFrontmatter pay_request ''id'' = None"
  by (simp add: parseFrontmatter_def pay_request_def frontmatter_block_def startsWith_def add_line_def trim_def is_space_def)

lemma approval_of_id:
  "approval_of n f c ''id'' =
     (case parseFrontmatter c ''id'' of
        None \<Rightarrow> Some (JNum (of_int (file_id n f)))
      | Some s \<Rightarrow> Some (JStr s))"
  by (simp add: approval_of_def Let_def map_add_def split: option.splits)

lemma endsWith_examples:
  "endsWith ''APPROVAL_123_mail.md'' ''.md''"
  "endsWith ''APPROVAL_12_pay.md'' ''.md''"
  by (simp_all add: endsWith_def)

text \<open>
  C2 (as stated) fails when the identifier's text occurs in an earlier name: with
  requests 123 and 12 pending, approving 12 moves the file of 123, and 12 is still listed.
\<close>

theorem approve_wrong_file_counterexample:
  "map (\<lambda>r. r ''id'') (getPendingApprovals (\<lambda>f. 1000) two_requests) = [Some (JNum 123), Some (JNum 12)]
   \<and> updateApprovalStatus ''2026-01-05T10:00:00.000Z'' (IdNum 12) ''approve'' two_requests =
       (Inr (), two_requests\<lparr>pending := Some [(''APPROVAL_12_pay.md'', File pay_request)],
                  approved := Some [(''APPROVAL_123_mail.md'', File approved_request)]\<rparr>)
   \<and> map (\<lambda>r. r ''id'')
        (getPendingApprovals (\<lambda>f. 1000)
           (snd (updateApprovalStatus ''2026-01-05T10:00:00.000Z'' (IdNum 12) ''approve'' two_requests)))
       = [Some (JNum 12)]"
proof -
  have ids: "approval_of n ''APPROVAL_123_mail.md'' pay_request ''id'' = Some (JNum 123)"
    "approval_of n ''APPROVAL_12_pay.md'' pay_request ''id'' = Some (JNum 12)" for n
    by (simp_all add: approval_of_id file_id_examples parse_pay_id)
  have before: "map (\<lambda>r. r ''id'') (getPendingApprovals (\<lambda>f. 1000) two_requests) =
      [Some (JNum 123), Some (JNum 12)]"
    by (simp add: getPendingApprovals_def two_requests_def endsWith_examples ids)
  have rep: "replace_first ''status: pending'' (status_template ''approve'' ''2026-01-05T10:00:00.000Z'') pay_request
      = approved_request"
    using replace_first_found [OF split_pay, of "status_template ''approve'' ''2026-01-05T10:00:00.000Z''"]
    by (simp add: status_template_def approved_request_def)
  have run: "updateApprovalStatus ''2026-01-05T10:00:00.000Z'' (IdNum 12) ''approve'' two_requests =
       (Inr (), two_requests\<lparr>pending := Some [(''APPROVAL_12_pay.md'', File pay_request)],
                  approved := Some [(''APPROVAL_123_mail.md'', File approved_request)]\<rparr>)"
    by (simp add: updateApprovalStatus_def two_requests_def example_vault_def int_text_12 startsWith_def
        rep set_bucket_def bucket_dir_def mkdir_def dir_write_def dir_remove_def overwrite_def)
  have after: "map (\<lambda>r. r ''id'')
        (getPendingApprovals (\<lambda>f. 1000)
           (two_requests\<lparr>pending := Some [(''APPROVAL_12_pay.md'', File pay_request)],
                  approved := Some [(''APPROVAL_123_mail.md'', File approved_request)]\<rparr>))
       = [Some (JNum 12)]"
    by (simp add: getPendingApprovals_def endsWith_examples ids)
  from before run after show ?thesis by simp
qed

text \<open>
  C5: the code at \<^verbatim>\<open>decide(12, reject)\<close>. The template appends the letter d to the
  action, so the status written is \<^verbatim>\<open>rejectd\<close>, which is none of the three values.
\<close>

theorem reject_writes_rejectd:
  "updateApprovalStatus ''2026-01-05T10:00:00.000Z'' (IdNum 12) ''reject'' example_vault =
     (Inr (), example_vault\<lparr>pending := Some [],
                rejected := Some [(''APPROVAL_12_pay.md'', File rejected_request)]\<rparr>)
   \<and> parseFrontmatter rejected_request ''status'' = Some ''rejectd''
   \<and> ''rejectd'' \<notin> {''pending'', ''approved'', ''rejected''}"
proof -
  have rep: "replace_first ''status: pending'' (status_template ''reject'' ''2026-01-05T10:00:00.000Z'') pay_request
      = rejected_request"
    using replace_first_found [OF split_pay, of "status_template ''reject'' ''2026-01-05T10:00:00.000Z''"]
    by (simp add: status_template_def rejected_request_def)
  have run: "updateApprovalStatus ''2026-01-05T10:00:00.000Z'' (IdNum 12) ''reject'' example_vault =
     (Inr (), example_vault\<lparr>pending := Some [],
                rejected := Some [(''APPROVAL_12_pay.md'', File rejected_request)]\<rparr>)"
    by (simp add: updateApprovalStatus_def example_vault_def int_text_12 startsWith_def
        rep set_bucket_def bucket_dir_def mkdir_def dir_write_def dir_remove_def overwrite_def)
  have parse: "parseFrontmatter rejected_request ''status'' = Some ''rejectd''"
    by (simp add: parseFrontmatter_def rejected_request_def frontmatter_block_def startsWith_def
        add_line_def trim_def is_space_def)
  from run parse show ?thesis by simp
qed


section \<open>The activity feed\<close>

lemma sequence_results_map_Inr:
  "sequence_results rs = Inr xs \<Longrightarrow> rs = map Inr xs"
proof (induction rs arbitrary: xs)
  case Nil
  then show ?case by simp
next
  case (Cons r rs)
  then show ?case
    by (cases r; cases "sequence_results rs") auto
qed

lemma sequence_results_all_Inr:
  "list_all (\<lambda>r. \<exists>x. r = Inr x) rs \<Longrightarrow> \<exists>xs. sequence_results rs = Inr xs"
proof (induction rs)
  case Nil
  then show ?case by simp
next
  case (Cons r rs)
  then obtain x xs where "r = Inr x" "sequence_results rs = Inr xs" by auto
  then show ?case by simp
qed

lemma sequence_results_some_Inl:
  "\<not> list_all (\<lambda>r. \<exists>x. r = Inr x) rs \<Longrightarrow> \<exists>err. sequence_results rs = Inl err"
proof (induction rs)
  case Nil
  then show ?case by simp
next
  case (Cons r rs)
  show ?case
  proof (cases r)
    case (Inl err)
    then show ?thesis by simp
  next
    case (Inr x)
    with Cons.prems have "\<not> list_all (\<lambda>r. \<exists>x. r = Inr x) rs" by simp
    from Cons.IH [OF this] Inr show ?thesis by auto
  qed
qed

lemma json_text_convertible:
  "(\<exists>t. json_text nt j = Inr t) \<longleftrightarrow> convertible j"
proof (induction j)
  case (JArr xs)
  let ?rs = "map (\<lambda>x. if x = JNull then Inr [] else json_text nt x) xs"
  have each: "list_all (\<lambda>r. \<exists>t. r = Inr t) ?rs \<longleftrightarrow> list_all convertible xs"
    using JArr.IH by (induction xs) auto
  show ?case
  proof (cases "list_all convertible xs")
    case True
    with each sequence_results_all_Inr [of ?rs] show ?thesis by auto
  next
    case False
    with each sequence_results_some_Inl [of ?rs] show ?thesis by auto
  qed
qed simp_all

lemma js_text_convertible:
  "(\<exists>t. js_text nt x = Inr t) \<longleftrightarrow> (case x of None \<Rightarrow> True | Some j \<Rightarrow> convertible j)"
  by (cases x) (simp_all add: js_text_def json_text_convertible)

lemma json_text_error:
  "json_text nt j = Inl err \<Longrightarrow> \<not> convertible j"
  using json_text_convertible [of nt j] by auto

lemma activity_of_displayable:
  "(\<exists>a. activity_of env lg = Inr a) \<longleftrightarrow> displayable lg"
proof (cases "lg = JNull")
  case True
  then show ?thesis by (simp add: activity_of_def displayable_def)
next
  case False
  have key: "(\<exists>t. js_text (num_text env) (field lg ''action_type'') = Inr t) \<longleftrightarrow>
      (case field lg ''action_type'' of None \<Rightarrow> True | Some j \<Rightarrow> convertible j)"
    by (rule js_text_convertible)
  have stamp: "(\<exists>t. js_text (num_text env) (field lg ''timestamp'') = Inr t) \<longleftrightarrow>
      (case field lg ''timestamp'' of None \<Rightarrow> True | Some j \<Rightarrow> convertible j)"
    by (rule js_text_convertible)
  show ?thesis
  proof (cases "js_text (num_text env) (field lg ''action_type'')")
    case (Inl err)
    with key False show ?thesis
      by (auto simp: activity_of_def displayable_def getActivityTitle_def)
  next
    case kt: (Inr k)
    show ?thesis
    proof (cases "js_text (num_text env) (field lg ''timestamp'')")
      case (Inl err)
      with stamp kt False show ?thesis
        by (auto simp: activity_of_def displayable_def getActivityTitle_def
            getActivityDescription_def activity_time_def Let_def split: option.splits)
    next
      case (Inr t)
      with key stamp kt False show ?thesis
        by (auto simp: activity_of_def displayable_def getActivityTitle_def
            getActivityDescription_def activity_time_def getActivityIcon_def getActivityColor_def
            Let_def split: option.splits)
    qed
  qed
qed

lemma getRecentActivities_array:
  assumes "logs v (day_file now) = Some (Json (JArr ls))"
    and "list_all displayable (drop (length ls - 10) ls)"
  shows "map (activity_of env) (drop (length ls - 10) ls) = map Inr (getRecentActivities env now v)"
proof -
  let ?rs = "map (activity_of env) (drop (length ls - 10) ls)"
  have "list_all (\<lambda>r. \<exists>a. r = Inr a) ?rs"
    using assms(2) activity_of_displayable [of env]
    by (induction "drop (length ls - 10) ls") (auto simp: list_all_iff)
  from sequence_results_all_Inr [OF this] obtain acts where acts: "sequence_results ?rs = Inr acts"
    by blast
  then have "getRecentActivities env now v = acts"
    by (simp add: getRecentActivities_def assms(1))
  with sequence_results_map_Inr [OF acts] show ?thesis by simp
qed

lemma getRecentActivities_seed:
  assumes "logs v (day_file now) = Some (Json (JArr ls))"
    and "\<not> list_all displayable (drop (length ls - 10) ls)"
  shows "getRecentActivities env now v = getSampleActivities env"
proof -
  let ?rs = "map (activity_of env) (drop (length ls - 10) ls)"
  have "\<not> list_all (\<lambda>r. \<exists>a. r = Inr a) ?rs"
    using assms(2) activity_of_displayable [of env]
    by (auto simp: list_all_iff)
  from sequence_results_some_Inl [OF this] obtain err where "sequence_results ?rs = Inl err"
    by blast
  then show ?thesis
    by (simp add: getRecentActivities_def assms(1))
qed

lemma getDashboardData_live:
  "dashboard_md v = Some content \<Longrightarrow> stats_document v = Some st \<Longrightarrow> st \<noteq> JNull \<Longrightarrow>
   getDashboardData env clk now v =
     \<lparr>aiActive = True,
      pendingApprovals = getPendingApprovals clk v,
      recentActivities = getRecentActivities env now v,
      stats =
        \<lparr>weeklyRevenue = or_else (field st ''weeklyRevenue'') (JNum 2450),
         pendingTasks = or_else (field st ''pendingTasks'') (JNum 8),
         unreadMessages = or_else (field st ''unreadMessages'') (JNum 5),
         aiUptime = or_else (field st ''aiUptime'') (JNum 99.8)\<rparr>,
      dashboardContent = content\<rparr>"
  by (simp add: getDashboardData_def)

lemma getDashboardData_default:
  "dashboard_md v = None \<or> stats_document v = None \<or> stats_document v = Some JNull \<Longrightarrow>
   getDashboardData env clk now v = getDefaultDashboardData env"
  by (auto simp: getDashboardData_def split: option.splits)

text \<open>
  C4 (as amended). When today's day-bucket is a JSON array whose last ten elements can
  all be displayed (none is \<^verbatim>\<open>null\<close>, and none has an \<^verbatim>\<open>action_type\<close> or \<^verbatim>\<open>timestamp\<close> whose
  conversion to text throws), the feed is the display records of its last ten entries
  (all of them when there are fewer) in the order in which they were appended, oldest
  first; the \<^verbatim>\<open>recentActivities\<close> of a snapshot that is not the default one is this
  sequence.
\<close>

theorem recent_in_append_order:
  assumes "logs v (day_file now) = Some (Json (JArr ls))"
    and "list_all displayable (drop (length ls - 10) ls)"
  shows "map (activity_of env) (drop (length ls - 10) ls) = map Inr (getRecentActivities env now v)
       \<and> length (getRecentActivities env now v) = min 10 (length ls)
       \<and> (\<forall>content st. dashboard_md v = Some content \<and> stats_document v = Some st \<and> st \<noteq> JNull \<longrightarrow>
             map (activity_of env) (drop (length ls - 10) ls) =
               map Inr (recentActivities (getDashboardData env clk now v)))"
proof -
  have feed: "map (activity_of env) (drop (length ls - 10) ls) =
      map Inr (getRecentActivities env now v)"
    by (rule getRecentActivities_array [OF assms])
  have "length (map (activity_of env) (drop (length ls - 10) ls)) =
      length (map Inr (getRecentActivities env now v) :: (error + activity) list)"
    by (simp only: feed)
  then have len: "length (getRecentActivities env now v) = min 10 (length ls)"
    by simp
  have snap: "map (activity_of env) (drop (length ls - 10) ls) =
               map Inr (recentActivities (getDashboardData env clk now v))"
    if "dashboard_md v = Some content" "stats_document v = Some st" "st \<noteq> JNull" for content st
    using getDashboardData_live [OF that] by (simp add: feed)
  from feed len snap show ?thesis by blast
qed

lemma two_appends:
  "append_all ''2026-01-05T10:00:00.000Z'' [first_entry, second_entry] example_vault =
     (Inr (), example_vault\<lparr>logs := (logs example_vault)(''2026-01-05.json'' \<mapsto>
                 Json (JArr [first_entry, second_entry]))\<rparr>)"
proof -
  have "stored_entries (logs example_vault (day_file ''2026-01-05T10:00:00.000Z'')) = Some []"
    by (simp add: example_vault_def)
  from append_all_stored [OF this, of "[first_entry, second_entry]"] show ?thesis
    by (simp add: day_file_morning)
qed

lemma after_two_appends:
  "snd (append_all ''2026-01-05T10:00:00.000Z'' [first_entry, second_entry] example_vault) =
     example_vault\<lparr>logs := (logs example_vault)(''2026-01-05.json'' \<mapsto>
                 Json (JArr [first_entry, second_entry]))\<rparr>"
  by (simp only: two_appends snd_conv)

lemma activity_examples:
  "activity_of example_env first_entry = Inr first_activity"
  "activity_of example_env second_entry = Inr second_activity"
  by (simp_all add: activity_of_def first_entry_def second_entry_def example_env_def
      first_activity_def second_activity_def
      getActivityTitle_def getActivityDescription_def getActivityIcon_def getActivityColor_def
      activity_time_def table_lookup_def js_text_def Let_def)

lemma displayable_examples:
  "displayable first_entry" "displayable second_entry" "\<not> displayable odd_entry"
  by (simp_all add: displayable_def first_entry_def second_entry_def odd_entry_def)

theorem recent_in_append_order_witness:
  "getRecentActivities example_env ''2026-01-05T10:00:00.000Z''
     (snd (append_all ''2026-01-05T10:00:00.000Z'' [first_entry, second_entry] example_vault)) =
     [first_activity, second_activity]
   \<and> recentActivities (getDashboardData example_env (\<lambda>f. 1000) ''2026-01-05T10:00:00.000Z''
        (snd (append_all ''2026-01-05T10:00:00.000Z'' [first_entry, second_entry] example_vault))) =
     [first_activity, second_activity]"
proof -
  let ?v = "example_vault\<lparr>logs := (logs example_vault)(''2026-01-05.json'' \<mapsto>
                 Json (JArr [first_entry, second_entry]))\<rparr>"
  let ?feed = "getRecentActivities example_env ''2026-01-05T10:00:00.000Z'' ?v"
  let ?snap = "recentActivities (getDashboardData example_env (\<lambda>f. 1000) ''2026-01-05T10:00:00.000Z'' ?v)"
  have h1: "logs ?v (day_file ''2026-01-05T10:00:00.000Z'') = Some (Json (JArr [first_entry, second_entry]))"
    by (simp add: day_file_morning)
  have h2: "list_all displayable (drop (length [first_entry, second_entry] - 10) [first_entry, second_entry])"
    by (simp add: displayable_examples)
  have d: "dashboard_md ?v = Some ''# Dashboard''"
    by (simp add: example_vault_def)
  have s: "stats_document ?v = Some (JObj [])"
    by (simp add: stats_document_def example_vault_def)
  note th = recent_in_append_order [OF h1 h2, of example_env "\<lambda>f. 1000"]
  have "map Inr ?feed = [Inr first_activity, Inr second_activity]"
    using th by (auto simp: activity_examples)
  moreover have "map Inr ?snap = [Inr first_activity, Inr second_activity]"
    using th d s by (auto simp: activity_examples)
  ultimately have "?feed = [first_activity, second_activity]" "?snap = [first_activity, second_activity]"
    by (auto simp: map_eq_Cons_conv)
  then show ?thesis
    unfolding after_two_appends by simp
qed

text \<open>
  C4 (as stated) fails on the order: after two appends the feed starts with the older
  entry, so it is not the most-recent-first sequence.
\<close>

theorem recent_order_counterexample:
  "map (activity_of example_env) [first_entry, second_entry] = [Inr first_activity, Inr second_activity]
   \<and> getRecentActivities example_env ''2026-01-05T10:00:00.000Z''
     (snd (append_all ''2026-01-05T10:00:00.000Z'' [first_entry, second_entry] example_vault)) =
     [first_activity, second_activity]
   \<and> getRecentActivities example_env ''2026-01-05T10:00:00.000Z''
     (snd (append_all ''2026-01-05T10:00:00.000Z'' [first_entry, second_entry] example_vault)) \<noteq>
     [second_activity, first_activity]"
  unfolding after_two_appends
  by (simp add: getRecentActivities_def day_file_morning activity_examples
      first_activity_def second_activity_def)

lemma odd_entry_seed:
  "getRecentActivities example_env ''2026-01-05T10:00:00.000Z''
     (example_vault\<lparr>logs := (logs example_vault)(''2026-01-05.json'' \<mapsto>
        Json (JArr [first_entry, odd_entry]))\<rparr>) = getSampleActivities example_env"
proof -
  let ?v = "example_vault\<lparr>logs := (logs example_vault)(''2026-01-05.json'' \<mapsto>
        Json (JArr [first_entry, odd_entry]))\<rparr>"
  have h1: "logs ?v (day_file ''2026-01-05T10:00:00.000Z'') = Some (Json (JArr [first_entry, odd_entry]))"
    by (simp add: day_file_morning)
  have h2: "\<not> list_all displayable (drop (length [first_entry, odd_entry] - 10) [first_entry, odd_entry])"
    by (simp add: displayable_examples)
  from getRecentActivities_seed [OF h1 h2] show ?thesis .
qed

section \<open>The snapshot\<close>

lemma stats_document_absent:
  "logs v ''stats.json'' = None \<Longrightarrow> stats_document v = Some (JObj [])"
  by (simp add: stats_document_def)

text \<open>
  C6 (as amended). The snapshot degrades in part only when the stats side-file cannot
  be read: the stats are then the compiled-in defaults, and the lists and the document are
  live. When the dashboard document cannot be read, or the text of the stats side-file
  does not parse, or it is the document \<^verbatim>\<open>null\<close>, the snapshot is the static default as a
  whole: no pending approvals and the sample activities.
\<close>

theorem snapshot_degradation:
  "(dashboard_md v = Some content \<and> logs v ''stats.json'' = None \<longrightarrow>
      getDashboardData env clk now v =
        \<lparr>aiActive = True,
         pendingApprovals = getPendingApprovals clk v,
         recentActivities = getRecentActivities env now v,
         stats = default_stats,
         dashboardContent = content\<rparr>)
   \<and> (dashboard_md v = None \<or> stats_document v = None \<or> stats_document v = Some JNull \<longrightarrow>
      getDashboardData env clk now v =
        \<lparr>aiActive = True,
         pendingApprovals = [],
         recentActivities = getSampleActivities env,
         stats = default_stats,
         dashboardContent = dashboard_template env\<rparr>)"
proof -
  have part: "getDashboardData env clk now v =
        \<lparr>aiActive = True,
         pendingApprovals = getPendingApprovals clk v,
         recentActivities = getRecentActivities env now v,
         stats = default_stats,
         dashboardContent = content\<rparr>"
    if "dashboard_md v = Some content" "logs v ''stats.json'' = None"
    using getDashboardData_live [OF that(1) stats_document_absent [OF that(2)]]
    by (simp add: default_stats_def or_else_def)
  have whole: "getDashboardData env clk now v =
        \<lparr>aiActive = True,
         pendingApprovals = [],
         recentActivities = getSampleActivities env,
         stats = default_stats,
         dashboardContent = dashboard_template env\<rparr>"
    if "dashboard_md v = None \<or> stats_document v = None \<or> stats_document v = Some JNull"
    using getDashboardData_default [OF that]
    by (simp add: getDefaultDashboardData_def)
  from part whole show ?thesis by blast
qed

lemma listing_example:
  "length (getPendingApprovals clk example_vault) = 1"
  by (simp add: getPendingApprovals_def example_vault_def endsWith_def)

theorem snapshot_degradation_witness:
  "getDashboardData example_env (\<lambda>f. 1000) ''2026-01-05T10:00:00.000Z'' example_vault =
      \<lparr>aiActive = True,
       pendingApprovals = getPendingApprovals (\<lambda>f. 1000) example_vault,
       recentActivities = getSampleActivities example_env,
       stats = default_stats,
       dashboardContent = ''# Dashboard''\<rparr>
   \<and> getDashboardData example_env (\<lambda>f. 1000) ''2026-01-05T10:00:00.000Z''
        (example_vault\<lparr>dashboard_md := None\<rparr>) =
      \<lparr>aiActive = True,
       pendingApprovals = [],
       recentActivities = getSampleActivities example_env,
       stats = default_stats,
       dashboardContent = ''# AI Employee Dashboard''\<rparr>"
proof -
  have a: "dashboard_md example_vault = Some ''# Dashboard'' \<and> logs example_vault ''stats.json'' = None"
    by (simp add: example_vault_def)
  have b: "dashboard_md (example_vault\<lparr>dashboard_md := None\<rparr>) = None"
    by simp
  have feed: "getRecentActivities example_env ''2026-01-05T10:00:00.000Z'' example_vault =
      getSampleActivities example_env"
    by (simp add: getRecentActivities_def example_vault_def)
  from snapshot_degradation [of example_vault "''# Dashboard''" example_env "\<lambda>f. 1000"
      "''2026-01-05T10:00:00.000Z''"]
    snapshot_degradation [of "example_vault\<lparr>dashboard_md := None\<rparr>" "[]" example_env "\<lambda>f. 1000"
      "''2026-01-05T10:00:00.000Z''"] a b feed
  show ?thesis
    by (simp add: example_env_def)
qed

text \<open>
  C6 (as stated) fails when the dashboard document is the failing source: with the
  stats side-file readable and a request pending, the snapshot has the default stats
  and no pending approvals.
\<close>

theorem snapshot_total_counterexample:
  "stats_document (example_vault\<lparr>dashboard_md := None,
       logs := (\<lambda>n. None)(''stats.json'' \<mapsto> Json (JObj [(''weeklyRevenue'', JNum 3000)]))\<rparr>) =
     Some (JObj [(''weeklyRevenue'', JNum 3000)])
   \<and> length (getPendingApprovals (\<lambda>f. 1000) (example_vault\<lparr>dashboard_md := None,
       logs := (\<lambda>n. None)(''stats.json'' \<mapsto> Json (JObj [(''weeklyRevenue'', JNum 3000)]))\<rparr>)) = 1
   \<and> pendingApprovals (getDashboardData example_env (\<lambda>f. 1000) ''2026-01-05T10:00:00.000Z''
       (example_vault\<lparr>dashboard_md := None,
          logs := (\<lambda>n. None)(''stats.json'' \<mapsto> Json (JObj [(''weeklyRevenue'', JNum 3000)]))\<rparr>)) = []
   \<and> weeklyRevenue (stats (getDashboardData example_env (\<lambda>f. 1000) ''2026-01-05T10:00:00.000Z''
       (example_vault\<lparr>dashboard_md := None,
          logs := (\<lambda>n. None)(''stats.json'' \<mapsto> Json (JObj [(''weeklyRevenue'', JNum 3000)]))\<rparr>))) = JNum 2450"
  by (simp add: getDashboardData_def getDefaultDashboardData_def default_stats_def stats_document_def
      getPendingApprovals_def example_vault_def endsWith_def)

text \<open>
  C10. A counter that the stats document stores as 0, or as any other falsy value, or
  does not store, is reported with its compiled-in default.
\<close>

theorem falsy_counter_defaults:
  assumes "stats_document v = Some st"
  shows "(\<not> truthy (field st ''weeklyRevenue'') \<longrightarrow>
            weeklyRevenue (stats (getDashboardData env clk now v)) = JNum 2450)
       \<and> (\<not> truthy (field st ''pendingTasks'') \<longrightarrow>
            pendingTasks (stats (getDashboardData env clk now v)) = JNum 8)
       \<and> (\<not> truthy (field st ''unreadMessages'') \<longrightarrow>
            unreadMessages (stats (getDashboardData env clk now v)) = JNum 5)
       \<and> (\<not> truthy (field st ''aiUptime'') \<longrightarrow>
            aiUptime (stats (getDashboardData env clk now v)) = JNum 99.8)"
  using assms
  by (simp add: getDashboardData_def getDefaultDashboardData_def default_stats_def or_else_def
      split: option.splits)

theorem falsy_counter_defaults_witness:
  "stats (getDashboardData example_env (\<lambda>f. 1000) ''2026-01-05T10:00:00.000Z''
     (example_vault\<lparr>logs := (\<lambda>n. None)(''stats.json'' \<mapsto>
        Json (JObj [(''weeklyRevenue'', JNum 0), (''pendingTasks'', JNum 0),
                    (''unreadMessages'', JNum 0), (''aiUptime'', JNum 0)]))\<rparr>)) =
   \<lparr>weeklyRevenue = JNum 2450, pendingTasks = JNum 8, unreadMessages = JNum 5, aiUptime = JNum 99.8\<rparr>"
proof -
  let ?st = "JObj [(''weeklyRevenue'', JNum 0), (''pendingTasks'', JNum 0),
                    (''unreadMessages'', JNum 0), (''aiUptime'', JNum 0)]"
  let ?v = "example_vault\<lparr>logs := (\<lambda>n. None)(''stats.json'' \<mapsto> Json ?st)\<rparr>"
  have h: "stats_document ?v = Some ?st"
    by (simp add: stats_document_def)
  have "stats (getDashboardData example_env (\<lambda>f. 1000) ''2026-01-05T10:00:00.000Z'' ?v) =
      \<lparr>weeklyRevenue = weeklyRevenue (stats (getDashboardData example_env (\<lambda>f. 1000) ''2026-01-05T10:00:00.000Z'' ?v)),
       pendingTasks = pendingTasks (stats (getDashboardData example_env (\<lambda>f. 1000) ''2026-01-05T10:00:00.000Z'' ?v)),
       unreadMessages = unreadMessages (stats (getDashboardData example_env (\<lambda>f. 1000) ''2026-01-05T10:00:00.000Z'' ?v)),
       aiUptime = aiUptime (stats (getDashboardData example_env (\<lambda>f. 1000) ''2026-01-05T10:00:00.000Z'' ?v))\<rparr>"
    by simp
  with falsy_counter_defaults [OF h, of example_env "\<lambda>f. 1000" "''2026-01-05T10:00:00.000Z''"]
  show ?thesis by simp
qed

section \<open>Trigger processing\<close>

text \<open>
  C7 (as amended). Every action other than the four strings is answered with status
  500 and the error document \<^verbatim>\<open>{error: 'Unknown action'}\<close>, and no routine runs.
\<close>

theorem unknown_action_is_500:
  assumes "act \<notin> {Some (JStr ''emails''), Some (JStr ''whatsapp''),
                   Some (JStr ''audit''), Some (JStr ''report'')}"
  shows "api_process act = (Response 500 (JObj [(''error'', JStr ''Unknown action'')]), None)"
  using assms by (simp add: api_process_def dispatch_def)

theorem unknown_action_is_500_witness:
  "api_process (Some (JStr ''email'')) =
     (Response 500 (JObj [(''error'', JStr ''Unknown action'')]), None)"
  using unknown_action_is_500 [of "Some (JStr ''email'')"] by simp

text \<open>C7 (as stated) fails: the status of the answer to an unknown action is not in the 4xx class.\<close>

theorem unknown_action_counterexample:
  "status_code (fst (api_process (Some (JStr ''email'')))) = 500
   \<and> \<not> (400 \<le> status_code (fst (api_process (Some (JStr ''email''))))
        \<and> status_code (fst (api_process (Some (JStr ''email'')))) < 500)"
  by (simp add: api_process_def dispatch_def)

section \<open>Listing pending requests\<close>

lemma collect_readable:
  "list_all (\<lambda>(f, e). endsWith f ''.md'' \<longrightarrow> e \<noteq> Unreadable) files \<Longrightarrow>
   collect clk files = Inr (md_records clk files)"
  by (induction files) (auto simp: md_records_def split: entry.splits)

lemma frontmatter_block_None:
  "frontmatter_block c = None \<Longrightarrow> parseFrontmatter c = Map.empty"
  by (simp add: parseFrontmatter_def)

lemma approval_of_no_header:
  assumes "parseFrontmatter c = Map.empty"
  shows "approval_of n f c =
           [''id'' \<mapsto> JNum (of_int (file_id n f)), ''file'' \<mapsto> JStr f,
            ''description'' \<mapsto> JStr ''Requires approval'', ''amount'' \<mapsto> JNum 0,
            ''recipient'' \<mapsto> JStr ''Unknown'']"
  by (rule ext) (simp add: approval_of_def Let_def assms or_else_def map_add_def)

text \<open>
  C8 (as amended). When every \<^verbatim>\<open>.md\<close> entry of the pending bucket can be read, the
  listing has one record for each of them, in listing order, whatever their text is; a
  file without a header block, or with a block that sets no key, yields the record with
  only \<^verbatim>\<open>id\<close>, \<^verbatim>\<open>file\<close> and the defaults of \<^verbatim>\<open>description\<close>, \<^verbatim>\<open>amount\<close> and \<^verbatim>\<open>recipient\<close>.
\<close>

theorem listing_tolerates_headers:
  assumes "pending v = Some files"
    and "list_all (\<lambda>(f, e). endsWith f ''.md'' \<longrightarrow> e \<noteq> Unreadable) files"
  shows "getPendingApprovals clk v = md_records clk files
       \<and> (\<forall>(f, e) \<in> set files. \<forall>c. e = File c \<and> endsWith f ''.md'' \<longrightarrow>
             approval_of (clk f) f c \<in> set (getPendingApprovals clk v))
       \<and> (\<forall>n f c. frontmatter_block c = None \<or> parseFrontmatter c = Map.empty \<longrightarrow>
             approval_of n f c =
               [''id'' \<mapsto> JNum (of_int (file_id n f)), ''file'' \<mapsto> JStr f,
                ''description'' \<mapsto> JStr ''Requires approval'', ''amount'' \<mapsto> JNum 0,
                ''recipient'' \<mapsto> JStr ''Unknown''])"
proof -
  have listing: "getPendingApprovals clk v = md_records clk files"
    by (simp add: getPendingApprovals_def assms(1) collect_readable [OF assms(2)])
  have each: "approval_of (clk f) f c \<in> set (getPendingApprovals clk v)"
    if "(f, File c) \<in> set files" "endsWith f ''.md''" for f c
    using that unfolding listing md_records_def by force
  have bare: "approval_of n f c =
               [''id'' \<mapsto> JNum (of_int (file_id n f)), ''file'' \<mapsto> JStr f,
                ''description'' \<mapsto> JStr ''Requires approval'', ''amount'' \<mapsto> JNum 0,
                ''recipient'' \<mapsto> JStr ''Unknown'']"
    if "frontmatter_block c = None \<or> parseFrontmatter c = Map.empty" for n f c
    using that approval_of_no_header frontmatter_block_None by blast
  from listing each bare show ?thesis by blast
qed

theorem listing_tolerates_headers_witness:
  "getPendingApprovals (\<lambda>f. 1000) unnumbered =
     [[''id'' \<mapsto> JNum 1000, ''file'' \<mapsto> JStr ''notes.md'',
       ''description'' \<mapsto> JStr ''Requires approval'', ''amount'' \<mapsto> JNum 0,
       ''recipient'' \<mapsto> JStr ''Unknown'']]"
proof -
  have p: "pending unnumbered = Some [(''notes.md'', File ''remember the milk'')]"
    by (simp add: unnumbered_def)
  have r: "list_all (\<lambda>(f, e). endsWith f ''.md'' \<longrightarrow> e \<noteq> Unreadable)
      [(''notes.md'', File ''remember the milk'')]"
    by simp
  have b: "frontmatter_block ''remember the milk'' = None"
    by (simp add: frontmatter_block_def startsWith_def)
  have i: "file_id 1000 ''notes.md'' = 1000"
    by (simp add: file_id_def)
  from listing_tolerates_headers [OF p r, of "\<lambda>f. 1000"] b i show ?thesis
    by (simp add: md_records_def endsWith_def)
qed

text \<open>
  C8 (as stated) fails for an entry that cannot be read: the listing is then empty,
  although the other request of the bucket is well-formed.
\<close>

theorem unreadable_hides_all_counterexample:
  "pending one_unreadable =
     Some [(''APPROVAL_12_pay.md'', File pay_request), (''APPROVAL_13_old.md'', Unreadable)]
   \<and> getPendingApprovals (\<lambda>f. 1000) one_unreadable = []
   \<and> length (getPendingApprovals (\<lambda>f. 1000)
        (one_unreadable\<lparr>pending := Some [(''APPROVAL_12_pay.md'', File pay_request)]\<rparr>)) = 1"
  by (simp add: getPendingApprovals_def one_unreadable_def example_vault_def endsWith_def)

lemma numbered_file_id:
  "numbered f \<Longrightarrow> file_id n f = file_id m f"
  by (auto simp: numbered_def file_id_def split: list.splits option.splits)

lemma approval_of_clock:
  "k \<noteq> ''id'' \<Longrightarrow> approval_of n f c k = approval_of m f c k"
  by (simp add: approval_of_def Let_def map_add_def split: option.splits)

lemma approval_of_numbered:
  "numbered f \<Longrightarrow> approval_of n f c = approval_of m f c"
  using numbered_file_id [of f n m] by (simp add: approval_of_def)

lemma collect_clock:
  "rel_sum (\<lambda>e1 e2. True) (list_all2 (\<lambda>r1 r2. \<forall>k. k \<noteq> ''id'' \<longrightarrow> r1 k = r2 k))
     (collect clk1 files) (collect clk2 files)"
proof (induction files)
  case Nil
  then show ?case by simp
next
  case (Cons p files)
  obtain f e where p: "p = (f, e)" by (cases p)
  show ?case
  proof (cases "endsWith f ''.md''")
    case False
    with Cons.IH p show ?thesis by simp
  next
    case md: True
    show ?thesis
    proof (cases e)
      case Unreadable
      with md p show ?thesis by simp
    next
      case (File c)
      with Cons.IH md p show ?thesis
        by (cases "collect clk1 files"; cases "collect clk2 files")
          (simp_all add: approval_of_clock)
    qed
  qed
qed

lemma collect_numbered:
  "list_all (\<lambda>(f, e). endsWith f ''.md'' \<longrightarrow> numbered f) files \<Longrightarrow>
   collect clk1 files = collect clk2 files"
  by (induction files) (auto simp: approval_of_numbered split: entry.splits sum.splits)

text \<open>
  C9 (as amended). Two listings of the same bucket have the same length and agree,
  record for record, on every field other than \<^verbatim>\<open>id\<close>; they are identical when the name
  of every \<^verbatim>\<open>.md\<close> entry has a number other than zero after its first underscore.
\<close>

theorem listing_repeatable:
  "list_all2 (\<lambda>r1 r2. \<forall>k. k \<noteq> ''id'' \<longrightarrow> r1 k = r2 k)
     (getPendingApprovals clk1 v) (getPendingApprovals clk2 v)
   \<and> ((\<forall>files. pending v = Some files \<longrightarrow>
          list_all (\<lambda>(f, e). endsWith f ''.md'' \<longrightarrow> numbered f) files)
       \<longrightarrow> getPendingApprovals clk1 v = getPendingApprovals clk2 v)"
proof -
  have fields: "list_all2 (\<lambda>r1 r2. \<forall>k. k \<noteq> ''id'' \<longrightarrow> r1 k = r2 k)
     (getPendingApprovals clk1 v) (getPendingApprovals clk2 v)"
  proof (cases "pending v")
    case None
    then show ?thesis by (simp add: getPendingApprovals_def)
  next
    case (Some files)
    with collect_clock [of clk1 files clk2] show ?thesis
      by (cases "collect clk1 files"; cases "collect clk2 files")
        (simp_all add: getPendingApprovals_def)
  qed
  have same: "getPendingApprovals clk1 v = getPendingApprovals clk2 v"
    if "\<forall>files. pending v = Some files \<longrightarrow>
          list_all (\<lambda>(f, e). endsWith f ''.md'' \<longrightarrow> numbered f) files"
  proof (cases "pending v")
    case None
    then show ?thesis by (simp add: getPendingApprovals_def)
  next
    case (Some files)
    with that have "list_all (\<lambda>(f, e). endsWith f ''.md'' \<longrightarrow> numbered f) files" by simp
    from collect_numbered [OF this, of clk1 clk2] Some show ?thesis
      by (simp add: getPendingApprovals_def)
  qed
  from fields same show ?thesis by blast
qed

theorem listing_repeatable_witness:
  "getPendingApprovals (\<lambda>f. 1000) example_vault = getPendingApprovals (\<lambda>f. 2000) example_vault
   \<and> length (getPendingApprovals (\<lambda>f. 1000) example_vault) = 1"
proof -
  have n: "numbered ''APPROVAL_12_pay.md''"
    by (simp add: numbered_def parseInt_def startsWith_def is_space_def is_digit_def digit_of_def
        digits_value_def)
  have "\<forall>files. pending example_vault = Some files \<longrightarrow>
          list_all (\<lambda>(f, e). endsWith f ''.md'' \<longrightarrow> numbered f) files"
    by (simp add: example_vault_def n)
  with listing_repeatable [of "\<lambda>f. 1000" example_vault "\<lambda>f. 2000"]
  have "getPendingApprovals (\<lambda>f. 1000) example_vault = getPendingApprovals (\<lambda>f. 2000) example_vault"
    by blast
  moreover have "length (getPendingApprovals (\<lambda>f. 1000) example_vault) = 1"
    by (simp add: getPendingApprovals_def example_vault_def endsWith_def)
  ultimately show ?thesis by simp
qed

text \<open>
  C9 (as stated) fails for a name without a number: the \<^verbatim>\<open>id\<close> of its record is the
  reading of the clock, which differs between two calls.
\<close>

theorem listing_clock_counterexample:
  "map (\<lambda>r. r ''id'') (getPendingApprovals (\<lambda>f. 1000) unnumbered) = [Some (JNum 1000)]
   \<and> map (\<lambda>r. r ''id'') (getPendingApprovals (\<lambda>f. 2000) unnumbered) = [Some (JNum 2000)]
   \<and> getPendingApprovals (\<lambda>f. 1000) unnumbered \<noteq> getPendingApprovals (\<lambda>f. 2000) unnumbered"
proof -
  have b: "parseFrontmatter ''remember the milk'' = Map.empty"
    by (simp add: parseFrontmatter_def frontmatter_block_def startsWith_def)
  have i: "file_id n ''notes.md'' = n" for n
    by (simp add: file_id_def)
  have ids: "map (\<lambda>r. r ''id'') (getPendingApprovals (\<lambda>f. n) unnumbered) = [Some (JNum (of_int n))]" for n
    by (simp add: getPendingApprovals_def unnumbered_def endsWith_def approval_of_id b i)
  have "map (\<lambda>r. r ''id'') (getPendingApprovals (\<lambda>f. 1000) unnumbered) \<noteq>
        map (\<lambda>r. r ''id'') (getPendingApprovals (\<lambda>f. 2000) unnumbered)"
    by (simp add: ids)
  then have "getPendingApprovals (\<lambda>f. 1000) unnumbered \<noteq> getPendingApprovals (\<lambda>f. 2000) unnumbered"
    by auto
  with ids [of 1000] ids [of 2000] show ?thesis by simp
qed

end
